theory Spec2Isabelle
  imports Complex_Main
begin

section \<open>Command handlers of the network module (custom.py)\<close>

text \<open>
  The handlers of \<^verbatim>\<open>azure/cli/command_modules/network/custom.py\<close> are embedded as
  functions: an exception of the source is a value \<open>Inl e\<close> of the result, a call to the
  management service is a value describing the request that is submitted, and an object
  that the Python code mutates in place is returned updated.
\<close>

subsection \<open>Exceptions\<close>

text \<open>
  The exception classes the handlers raise or let through. A message is carried as the
  source's format string, before interpolation.
\<close>

datatype error =
    CLIError string
  | RequiredArgumentMissingError string
  | MutuallyExclusiveArgumentError string
  | InvalidArgumentValueError string
  | ResourceNotFoundError string
  | HttpResponseError
  | AssertionError
  | AttributeError
  | IndexError
  | KeyError
  | TypeError
  | UnboundLocalError
  | ValueError

subsection \<open>TXT records: splitting the value into chunks\<close>

text \<open>
  \<^verbatim>\<open>
    while len(long_text) > 255:
        record.value.append(long_text[:255])
        long_text = long_text[255:]
    record.value.append(long_text)
  \<close>
  The loop of \<^verbatim>\<open>add_dns_txt_record\<close>; \<open>record_value\<close> is the list built so far.
\<close>

function txt_chunks :: "string \<Rightarrow> string list \<Rightarrow> string list" where
  "txt_chunks long_text record_value =
     (if length long_text > 255
      then txt_chunks (drop 255 long_text) (record_value @ [take 255 long_text])
      else record_value @ [long_text])"
  by pat_completeness auto
termination
  by (relation "measure (\<lambda>(long_text, record_value). length long_text)") auto

declare txt_chunks.simps [simp del]

text \<open>
  The value of the record that \<^verbatim>\<open>add_dns_txt_record\<close> hands to \<^verbatim>\<open>_add_save_record\<close>:
  the joined text is cut into chunks and the assertion on the total length is checked.
\<close>

definition txt_record_value :: "string list \<Rightarrow> error + string list" where
  "txt_record_value val =
     (let long_text = concat val;
          original_len = length long_text;
          record_value = txt_chunks long_text [];
          final_str = concat record_value;
          final_len = length final_str
      in if original_len = final_len then Inr record_value else Inl AssertionError)"

subsection \<open>Python values and SDK model objects\<close>

text \<open>
  The values of the attributes of a DNS record: \<open>None\<close>, an integer, a string, a list of
  strings (the value of a TXT record), and a bare \<^verbatim>\<open>object()\<close> as
  \<^verbatim>\<open>dict_matches_filter\<close> creates one for a sentinel. A model object of the SDK is its
  \<^verbatim>\<open>__dict__\<close>: the attribute names with their values.
\<close>

datatype pyval = PNone | PInt int | PStr string | PList "string list" | PObject

type_synonym py_obj = "(string \<times> pyval) list"

text \<open>\<^verbatim>\<open>obj.name\<close>: an attribute the object does not have raises AttributeError.\<close>

definition getattr :: "py_obj \<Rightarrow> string \<Rightarrow> error + pyval" where
  "getattr obj name = (case map_of obj name of None \<Rightarrow> Inl AttributeError | Some v \<Rightarrow> Inr v)"

text \<open>\<^verbatim>\<open>d.get(key, default)\<close> on the \<^verbatim>\<open>__dict__\<close> of an object.\<close>

definition dict_get :: "py_obj \<Rightarrow> string \<Rightarrow> pyval \<Rightarrow> pyval" where
  "dict_get d key dflt = (case map_of d key of None \<Rightarrow> dflt | Some v \<Rightarrow> v)"

text \<open>The truth value of a Python value, as \<^verbatim>\<open>not x\<close> and \<^verbatim>\<open>if x\<close> read it.\<close>

fun truthy :: "pyval \<Rightarrow> bool" where
  "truthy PNone = False"
| "truthy (PInt i) = (i \<noteq> 0)"
| "truthy (PStr s) = (s \<noteq> [])"
| "truthy (PList l) = (l \<noteq> [])"
| "truthy PObject = True"

text \<open>\<^verbatim>\<open>str.lower()\<close> on the ASCII letters.\<close>

definition lower_char :: "char \<Rightarrow> char" where
  "lower_char c =
     (case map_of (zip ''ABCDEFGHIJKLMNOPQRSTUVWXYZ'' ''abcdefghijklmnopqrstuvwxyz'') c of
        None \<Rightarrow> c
      | Some l \<Rightarrow> l)"

definition lower :: "string \<Rightarrow> string" where
  "lower s = map lower_char s"

subsection \<open>DNS record sets\<close>

text \<open>
  A property of a record set holds a list of records or a single record; \<open>None\<close> is
  Python's \<open>None\<close>. The requests the handlers submit to the \<^verbatim>\<open>record_sets\<close> operations
  are values of \<open>dns_call\<close>.
\<close>

datatype py_property = RecordList "py_obj list" | SingleRecord py_obj

record record_set =
  ttl :: "int option"
  properties :: "string \<Rightarrow> py_property option"

datatype dns_call =
    CreateOrUpdate string string string string record_set "string option"
  | Delete string string string string

definition setattr :: "record_set \<Rightarrow> string \<Rightarrow> py_property option \<Rightarrow> record_set" where
  "setattr rs name v = rs\<lparr>properties := (properties rs)(name := v)\<rparr>"

text \<open>\<^verbatim>\<open>RecordSet(ttl=3600)\<close>: every property is \<open>None\<close>.\<close>

definition RecordSet :: "int \<Rightarrow> record_set" where
  "RecordSet t = \<lparr>ttl = Some t, properties = (\<lambda>name. None)\<rparr>"

definition type_dict :: "(string \<times> string) list" where
  "type_dict =
     [(''a'', ''a_records''),
      (''aaaa'', ''aaaa_records''),
      (''caa'', ''caa_records''),
      (''cname'', ''cname_record''),
      (''mx'', ''mx_records''),
      (''ns'', ''ns_records''),
      (''ptr'', ''ptr_records''),
      (''soa'', ''soa_record''),
      (''spf'', ''txt_records''),
      (''srv'', ''srv_records''),
      (''txt'', ''txt_records''),
      (''alias'', ''target_resource'')]"

definition type_to_property_name :: "string \<Rightarrow> error + string" where
  "type_to_property_name key =
     (case map_of type_dict (lower key) of None \<Rightarrow> Inl KeyError | Some p \<Rightarrow> Inr p)"

subsection \<open>Does an equal record exist\<close>

text \<open>\<^verbatim>\<open>r.name == record.name\<close>\<close>

definition attr_eq :: "py_obj \<Rightarrow> py_obj \<Rightarrow> string \<Rightarrow> error + bool" where
  "attr_eq r record name =
     (case getattr r name of
        Inl e \<Rightarrow> Inl e
      | Inr a \<Rightarrow> (case getattr record name of Inl e \<Rightarrow> Inl e | Inr b \<Rightarrow> Inr (a = b)))"

text \<open>\<^verbatim>\<open>a and b\<close>: \<open>b\<close> is evaluated only when \<open>a\<close> is true.\<close>

definition py_and :: "error + bool \<Rightarrow> error + bool \<Rightarrow> error + bool" where
  "py_and a b = (case a of Inl e \<Rightarrow> Inl e | Inr t \<Rightarrow> if t then b else Inr False)"

text \<open>
  \<^verbatim>\<open>
    for r in exist_list:
        if cond(r):
            return True
    return False
  \<close>
\<close>

fun for_return_true :: "(py_obj \<Rightarrow> error + bool) \<Rightarrow> py_obj list \<Rightarrow> error + bool" where
  "for_return_true cond [] = Inr False"
| "for_return_true cond (r # exist_list) =
     (case cond r of
        Inl e \<Rightarrow> Inl e
      | Inr t \<Rightarrow> if t then Inr True else for_return_true cond exist_list)"

definition check_a_record_exist :: "py_obj \<Rightarrow> py_obj list \<Rightarrow> error + bool" where
  "check_a_record_exist record exist_list =
     for_return_true (\<lambda>r. attr_eq r record ''ipv4_address'') exist_list"

definition check_aaaa_record_exist :: "py_obj \<Rightarrow> py_obj list \<Rightarrow> error + bool" where
  "check_aaaa_record_exist record exist_list =
     for_return_true (\<lambda>r. attr_eq r record ''ipv6_address'') exist_list"

definition check_caa_record_exist :: "py_obj \<Rightarrow> py_obj list \<Rightarrow> error + bool" where
  "check_caa_record_exist record exist_list =
     for_return_true
       (\<lambda>r. py_and (attr_eq r record ''flags'')
              (py_and (attr_eq r record ''tag'') (attr_eq r record ''value'')))
       exist_list"

definition check_cname_record_exist :: "py_obj \<Rightarrow> py_obj list \<Rightarrow> error + bool" where
  "check_cname_record_exist record exist_list =
     for_return_true (\<lambda>r. attr_eq r record ''cname'') exist_list"

definition check_mx_record_exist :: "py_obj \<Rightarrow> py_obj list \<Rightarrow> error + bool" where
  "check_mx_record_exist record exist_list =
     for_return_true
       (\<lambda>r. py_and (attr_eq r record ''preference'') (attr_eq r record ''exchange''))
       exist_list"

definition check_ns_record_exist :: "py_obj \<Rightarrow> py_obj list \<Rightarrow> error + bool" where
  "check_ns_record_exist record exist_list =
     for_return_true (\<lambda>r. attr_eq r record ''nsdname'') exist_list"

definition check_ptr_record_exist :: "py_obj \<Rightarrow> py_obj list \<Rightarrow> error + bool" where
  "check_ptr_record_exist record exist_list =
     for_return_true (\<lambda>r. attr_eq r record ''ptrdname'') exist_list"

definition check_srv_record_exist :: "py_obj \<Rightarrow> py_obj list \<Rightarrow> error + bool" where
  "check_srv_record_exist record exist_list =
     for_return_true
       (\<lambda>r. py_and (attr_eq r record ''priority'')
              (py_and (attr_eq r record ''weight'')
                (py_and (attr_eq r record ''port'') (attr_eq r record ''target''))))
       exist_list"

definition check_txt_record_exist :: "py_obj \<Rightarrow> py_obj list \<Rightarrow> error + bool" where
  "check_txt_record_exist record exist_list =
     for_return_true (\<lambda>r. attr_eq r record ''value'') exist_list"

text \<open>
  \<^verbatim>\<open>globals()["_check_{}_record_exist".format(record_type)]\<close>: the functions of the module
  with such a name; any other record type raises KeyError.
\<close>

definition record_exist_func ::
  "string \<Rightarrow> error + (py_obj \<Rightarrow> py_obj list \<Rightarrow> error + bool)" where
  "record_exist_func record_type =
     (case map_of
        [(''a'', check_a_record_exist),
         (''aaaa'', check_aaaa_record_exist),
         (''caa'', check_caa_record_exist),
         (''cname'', check_cname_record_exist),
         (''mx'', check_mx_record_exist),
         (''ns'', check_ns_record_exist),
         (''ptr'', check_ptr_record_exist),
         (''srv'', check_srv_record_exist),
         (''txt'', check_txt_record_exist)] record_type of
        None \<Rightarrow> Inl KeyError
      | Some f \<Rightarrow> Inr f)"

subsection \<open>Adding a record\<close>

text \<open>
  \<^verbatim>\<open>_add_record\<close> mutates the record set; the model returns it. Iterating over a
  property that holds a single record raises TypeError.
\<close>

definition add_record :: "record_set \<Rightarrow> py_obj \<Rightarrow> string \<Rightarrow> bool \<Rightarrow> error + record_set" where
  "add_record record_set record record_type is_list =
     (case type_to_property_name record_type of
        Inl e \<Rightarrow> Inl e
      | Inr record_property \<Rightarrow>
          if is_list then
            (let record_set1 =
                   (if properties record_set record_property = None
                    then setattr record_set record_property (Some (RecordList []))
                    else record_set)
             in case record_exist_func record_type of
                  Inl e \<Rightarrow> Inl e
                | Inr record_exist \<Rightarrow>
                    (case properties record_set1 record_property of
                       Some (RecordList record_list) \<Rightarrow>
                         (case record_exist record record_list of
                            Inl e \<Rightarrow> Inl e
                          | Inr found \<Rightarrow>
                              if \<not> found
                              then Inr (setattr record_set1 record_property
                                          (Some (RecordList (record_list @ [record]))))
                              else Inr record_set1)
                     | _ \<Rightarrow> Inl TypeError))
          else Inr (setattr record_set record_property (Some (SingleRecord record))))"

text \<open>
  \<^verbatim>\<open>_add_save_record\<close>: \<open>fetched\<close> is what \<^verbatim>\<open>ncf.get\<close> returns or raises for the
  record set; the result is the request submitted to \<^verbatim>\<open>ncf.create_or_update\<close>.
\<close>

definition add_save_record ::
  "error + record_set \<Rightarrow> py_obj \<Rightarrow> string \<Rightarrow> string \<Rightarrow> string \<Rightarrow> string \<Rightarrow> bool \<Rightarrow>
   int option \<Rightarrow> bool \<Rightarrow> error + dns_call" where
  "add_save_record fetched record record_type record_set_name resource_group_name zone_name
     is_list ttl_arg if_none_match =
     (case (case fetched of
              Inl HttpResponseError \<Rightarrow> Inr (RecordSet 3600)
            | Inl e \<Rightarrow> Inl e
            | Inr record_set \<Rightarrow> Inr record_set) of
        Inl e \<Rightarrow> Inl e
      | Inr record_set \<Rightarrow>
          (let record_set1 =
                 (if ttl_arg \<noteq> None then record_set\<lparr>ttl := ttl_arg\<rparr> else record_set)
           in case add_record record_set1 record record_type is_list of
                Inl e \<Rightarrow> Inl e
              | Inr record_set2 \<Rightarrow>
                  Inr (CreateOrUpdate resource_group_name zone_name record_set_name record_type
                         record_set2 (if if_none_match then Some ''*'' else None))))"

text \<open>
  \<^verbatim>\<open>add_dns_a_record\<close> passes \<^verbatim>\<open>'arecords'\<close> in the place of \<^verbatim>\<open>is_list\<close>: a true
  value.
\<close>

definition add_dns_a_record ::
  "error + record_set \<Rightarrow> string \<Rightarrow> string \<Rightarrow> string \<Rightarrow> string \<Rightarrow> int option \<Rightarrow> bool \<Rightarrow>
   error + dns_call" where
  "add_dns_a_record fetched resource_group_name zone_name record_set_name ipv4_address
     ttl_arg if_none_match =
     add_save_record fetched [(''ipv4_address'', PStr ipv4_address)] ''a'' record_set_name
       resource_group_name zone_name True ttl_arg if_none_match"

definition add_dns_srv_record ::
  "error + record_set \<Rightarrow> string \<Rightarrow> string \<Rightarrow> string \<Rightarrow> int \<Rightarrow> int \<Rightarrow> int \<Rightarrow> string \<Rightarrow>
   bool \<Rightarrow> error + dns_call" where
  "add_dns_srv_record fetched resource_group_name zone_name record_set_name priority weight
     port target if_none_match =
     add_save_record fetched
       [(''priority'', PInt priority), (''weight'', PInt weight), (''port'', PInt port),
        (''target'', PStr target)]
       ''srv'' record_set_name resource_group_name zone_name True None if_none_match"

definition add_dns_txt_record ::
  "error + record_set \<Rightarrow> string \<Rightarrow> string \<Rightarrow> string \<Rightarrow> string list \<Rightarrow> bool \<Rightarrow>
   error + dns_call" where
  "add_dns_txt_record fetched resource_group_name zone_name record_set_name val if_none_match =
     (case txt_record_value val of
        Inl e \<Rightarrow> Inl e
      | Inr record_value \<Rightarrow>
          add_save_record fetched [(''value'', PList record_value)] ''txt'' record_set_name
            resource_group_name zone_name True None if_none_match)"

subsection \<open>Removing a record\<close>

text \<open>
  \<^verbatim>\<open>Counter(x)\<close> counts the elements of an iterable: the characters of a string, the
  items of a list, nothing for \<open>None\<close>; any other value raises TypeError, which
  \<^verbatim>\<open>lists_match\<close> catches. Two counters are equal when every element has the same
  count in both.
\<close>

fun counter_elems :: "pyval \<Rightarrow> error + string list" where
  "counter_elems PNone = Inr []"
| "counter_elems (PInt i) = Inl TypeError"
| "counter_elems (PStr s) = Inr (map (\<lambda>c. [c]) s)"
| "counter_elems (PList l) = Inr l"
| "counter_elems PObject = Inl TypeError"

definition lists_match :: "pyval \<Rightarrow> pyval \<Rightarrow> bool" where
  "lists_match l1 l2 =
     (case counter_elems l1 of
        Inl e \<Rightarrow> False
      | Inr xs \<Rightarrow>
          (case counter_elems l2 of
             Inl e \<Rightarrow> False
           | Inr ys \<Rightarrow> list_all (\<lambda>x. count_list xs x = count_list ys x) (xs @ ys)))"

text \<open>
  \<^verbatim>\<open>
    sentinel = object()
    return all(not filter_dict.get(key, None) or
               str(filter_dict[key]) == str(d.get(key, sentinel)) or
               lists_match(filter_dict[key], d.get(key, []))
               for key in filter_dict)
  \<close>
  \<open>str_of\<close> is Python's \<^verbatim>\<open>str\<close> on the values, a parameter: what it gives for the
  sentinel depends on the run. A key of \<open>filter_dict\<close> is in \<open>filter_dict\<close>, so
  \<^verbatim>\<open>filter_dict[key]\<close> never raises.
\<close>

definition dict_matches_filter :: "(pyval \<Rightarrow> string) \<Rightarrow> py_obj \<Rightarrow> py_obj \<Rightarrow> bool" where
  "dict_matches_filter str_of d filter_dict =
     list_all
       (\<lambda>key.
          if \<not> truthy (dict_get filter_dict key PNone) then True
          else if str_of (dict_get filter_dict key PNone) = str_of (dict_get d key PObject)
          then True
          else lists_match (dict_get filter_dict key PNone) (dict_get d key (PList [])))
       (map fst filter_dict)"

text \<open>
  \<^verbatim>\<open>_remove_record\<close>: \<open>fetched\<close> is what \<^verbatim>\<open>ncf.get\<close> returns or raises; the result is
  the request submitted to \<^verbatim>\<open>ncf.delete\<close> or \<^verbatim>\<open>ncf.create_or_update\<close>. Iterating
  over a single record, and \<^verbatim>\<open>len\<close> of \<open>None\<close> or of a single record, raise
  TypeError.
\<close>

definition remove_record ::
  "(pyval \<Rightarrow> string) \<Rightarrow> error + record_set \<Rightarrow> py_obj \<Rightarrow> string \<Rightarrow> string \<Rightarrow> string \<Rightarrow>
   string \<Rightarrow> bool \<Rightarrow> bool \<Rightarrow> error + dns_call" where
  "remove_record str_of fetched record record_type record_set_name resource_group_name zone_name
     keep_empty_record_set is_list =
     (case fetched of
        Inl e \<Rightarrow> Inl e
      | Inr record_set \<Rightarrow>
     (case type_to_property_name record_type of
        Inl e \<Rightarrow> Inl e
      | Inr record_property \<Rightarrow>
     (case
        (if is_list then
           (case properties record_set record_property of
              None \<Rightarrow> Inr record_set
            | Some (SingleRecord r) \<Rightarrow> Inl TypeError
            | Some (RecordList record_list) \<Rightarrow>
                (let keep_list =
                       filter (\<lambda>r. \<not> dict_matches_filter str_of r record) record_list
                 in if length keep_list = length record_list
                    then Inl (CLIError ''Record {} not found.'')
                    else Inr (setattr record_set record_property (Some (RecordList keep_list)))))
         else Inr (setattr record_set record_property None)) of
        Inl e \<Rightarrow> Inl e
      | Inr record_set1 \<Rightarrow>
     (case
        (if is_list then
           (case properties record_set1 record_property of
              Some (RecordList l) \<Rightarrow> Inr (length l)
            | _ \<Rightarrow> Inl TypeError)
         else Inr (if properties record_set1 record_property \<noteq> None then 1 else 0)) of
        Inl e \<Rightarrow> Inl e
      | Inr records_remaining \<Rightarrow>
          if records_remaining = 0 \<and> \<not> keep_empty_record_set
          then Inr (Delete resource_group_name zone_name record_set_name record_type)
          else Inr (CreateOrUpdate resource_group_name zone_name record_set_name record_type
                      record_set1 None)))))"

definition remove_dns_a_record ::
  "(pyval \<Rightarrow> string) \<Rightarrow> error + record_set \<Rightarrow> string \<Rightarrow> string \<Rightarrow> string \<Rightarrow> string \<Rightarrow>
   bool \<Rightarrow> error + dns_call" where
  "remove_dns_a_record str_of fetched resource_group_name zone_name record_set_name ipv4_address
     keep_empty_record_set =
     remove_record str_of fetched [(''ipv4_address'', PStr ipv4_address)] ''a'' record_set_name
       resource_group_name zone_name keep_empty_record_set True"

definition remove_dns_mx_record ::
  "(pyval \<Rightarrow> string) \<Rightarrow> error + record_set \<Rightarrow> string \<Rightarrow> string \<Rightarrow> string \<Rightarrow> int \<Rightarrow>
   string \<Rightarrow> bool \<Rightarrow> error + dns_call" where
  "remove_dns_mx_record str_of fetched resource_group_name zone_name record_set_name preference
     exchange keep_empty_record_set =
     remove_record str_of fetched [(''preference'', PInt preference), (''exchange'', PStr exchange)]
       ''mx'' record_set_name resource_group_name zone_name keep_empty_record_set True"

subsection \<open>Records that carry the attributes of their class\<close>

text \<open>
  The attributes that the check function of each record type compares, and what it is
  for an object to carry a list of attributes and for two objects to agree on them.
  \<open>all_attr_eq\<close> is the chain \<^verbatim>\<open>r.n1 == record.n1 and r.n2 == record.n2 and ...\<close>.
\<close>

definition identifying_fields :: "(string \<times> string list) list" where
  "identifying_fields =
     [(''a'', [''ipv4_address'']),
      (''aaaa'', [''ipv6_address'']),
      (''caa'', [''flags'', ''tag'', ''value'']),
      (''cname'', [''cname'']),
      (''mx'', [''preference'', ''exchange'']),
      (''ns'', [''nsdname'']),
      (''ptr'', [''ptrdname'']),
      (''srv'', [''priority'', ''weight'', ''port'', ''target'']),
      (''txt'', [''value''])]"

definition has_attrs :: "string list \<Rightarrow> py_obj \<Rightarrow> bool" where
  "has_attrs names obj = list_all (\<lambda>name. map_of obj name \<noteq> None) names"

definition same_attrs :: "string list \<Rightarrow> py_obj \<Rightarrow> py_obj \<Rightarrow> bool" where
  "same_attrs names r record = list_all (\<lambda>name. map_of r name = map_of record name) names"

fun all_attr_eq :: "py_obj \<Rightarrow> py_obj \<Rightarrow> string list \<Rightarrow> error + bool" where
  "all_attr_eq r record [] = Inr True"
| "all_attr_eq r record [name] = attr_eq r record name"
| "all_attr_eq r record (name # names) =
     py_and (attr_eq r record name) (all_attr_eq r record names)"

subsection \<open>Default values from a balancer\<close>

text \<open>
  A child resource of a load balancer or gateway with its resource id. An attribute of
  the balancer holds a list of children or \<open>None\<close>; a balancer without the attribute
  maps its name to \<open>None\<close> and \<^verbatim>\<open>getattr\<close> raises AttributeError.
\<close>

record sub_resource =
  res_id :: string

datatype collection = NoneValue | Children "sub_resource list"

type_synonym balancer = "string \<Rightarrow> collection option"

text \<open>
  \<^verbatim>\<open>s.rsplit(sep, 1)\<close>: the string split at its last separator, or the string alone when
  it has none.
\<close>

definition rsplit1 :: "char \<Rightarrow> string \<Rightarrow> string list" where
  "rsplit1 sep s =
     (if sep \<in> set s
      then [rev (tl (dropWhile (\<lambda>c. c \<noteq> sep) (rev s))), rev (takeWhile (\<lambda>c. c \<noteq> sep) (rev s))]
      else [s])"

text \<open>\<^verbatim>\<open>xs[i]\<close> for an index that is not negative.\<close>

definition item :: "'a list \<Rightarrow> nat \<Rightarrow> error + 'a" where
  "item xs i = (if i < length xs then Inr (xs ! i) else Inl IndexError)"

definition get_default_value :: "balancer \<Rightarrow> string \<Rightarrow> string \<Rightarrow> bool \<Rightarrow> error + string" where
  "get_default_value balancer property_name option_name return_name =
     (case balancer property_name of
        None \<Rightarrow> Inl AttributeError
      | Some NoneValue \<Rightarrow> Inl TypeError
      | Some (Children xs) \<Rightarrow>
          (let vals = map res_id xs
           in if length vals > 1
              then Inl (CLIError
                ''Multiple possible values found for '{0}': {1}\<newline>Specify '{0}' explicitly.'')
              else if vals = []
              then Inl (CLIError
                ''No existing values found for '{0}'. Create one first and try again.'')
              else if return_name
              then (case item vals 0 of
                      Inl e \<Rightarrow> Inl e
                    | Inr v \<Rightarrow> item (rsplit1 CHR ''/'' v) 1)
              else item vals 0))"

definition get_default_name :: "balancer \<Rightarrow> string \<Rightarrow> string \<Rightarrow> error + string" where
  "get_default_name balancer property_name option_name =
     get_default_value balancer property_name option_name True"

definition get_default_id :: "balancer \<Rightarrow> string \<Rightarrow> string \<Rightarrow> error + string" where
  "get_default_id balancer property_name option_name =
     get_default_value balancer property_name option_name False"

subsection \<open>Managed rule sets of a WAF policy\<close>

text \<open>
  A managed rule set with the overrides of its rule groups, and the policy that holds
  the rule sets. A rule of an override is named by its id.
\<close>

record rule_group_override =
  rule_group_name :: string
  rules :: "string list"

record managed_rule_set =
  rule_set_type :: string
  rule_set_version :: string
  rule_group_overrides :: "rule_group_override list"

record waf_policy =
  policy_name :: string
  managed_rule_sets :: "managed_rule_set list"

text \<open>
  \<^verbatim>\<open>
    for rg in rule_set.rule_group_overrides:
        if rg.rule_group_name == rule_group_name and not is_removed:
            is_removed = True
            continue
        new_rule_group_overrides.append(rg)
  \<close>
  The result is \<^verbatim>\<open>new_rule_group_overrides\<close> with \<^verbatim>\<open>is_removed\<close>.
\<close>

fun remove_rule_group ::
  "string \<Rightarrow> rule_group_override list \<Rightarrow> bool \<Rightarrow> rule_group_override list \<times> bool" where
  "remove_rule_group name [] is_removed = ([], is_removed)"
| "remove_rule_group name (rg # rgs) is_removed =
     (if rule_group_name rg = name \<and> \<not> is_removed
      then remove_rule_group name rgs True
      else (case remove_rule_group name rgs is_removed of
              (new_rule_group_overrides, removed) \<Rightarrow> (rg # new_rule_group_overrides, removed)))"

text \<open>
  The first loop of \<^verbatim>\<open>pre_instance_update\<close> in \<^verbatim>\<open>remove_waf_managed_rule_set\<close>. It
  returns the rule sets, those it has rewritten in place included, with
  \<^verbatim>\<open>delete_rule_set\<close>. With no rule group name the loop stops at the first rule set
  that passes the test of the source, \<^verbatim>\<open>type == rule_set_type or version ==
  rule_set_version\<close>.
\<close>

fun find_rule_sets ::
  "string \<Rightarrow> string \<Rightarrow> string option \<Rightarrow> managed_rule_set list \<Rightarrow>
   error + managed_rule_set list \<times> managed_rule_set option" where
  "find_rule_sets type version name_opt [] = Inr ([], None)"
| "find_rule_sets type version name_opt (rule_set # rest) =
     (if rule_set_type rule_set = type \<or> rule_set_version rule_set = version
      then (case name_opt of
              None \<Rightarrow> Inr (rule_set # rest, Some rule_set)
            | Some name \<Rightarrow>
                (case remove_rule_group name (rule_group_overrides rule_set) False of
                   (new_rule_group_overrides, is_removed) \<Rightarrow>
                     if \<not> is_removed
                     then Inl (ResourceNotFoundError ''Rule set group [{rule_group_name}] is not found.'')
                     else (case find_rule_sets type version name_opt rest of
                             Inl e \<Rightarrow> Inl e
                           | Inr (rest1, delete_rule_set) \<Rightarrow>
                               Inr (rule_set\<lparr>rule_group_overrides := new_rule_group_overrides\<rparr>
                                      # rest1, delete_rule_set))))
      else (case find_rule_sets type version name_opt rest of
              Inl e \<Rightarrow> Inl e
            | Inr (rest1, delete_rule_set) \<Rightarrow> Inr (rule_set # rest1, delete_rule_set)))"

text \<open>
  \<^verbatim>\<open>remove_waf_managed_rule_set\<close>: \<open>fetched\<close> is the policy the update command reads,
  the result is the policy it submits. A rule set is an object, which is true whatever
  it holds, so \<^verbatim>\<open>if delete_rule_set\<close> asks whether one was found.
\<close>

definition remove_waf_managed_rule_set ::
  "error + waf_policy \<Rightarrow> string \<Rightarrow> string \<Rightarrow> string option \<Rightarrow> error + waf_policy" where
  "remove_waf_managed_rule_set fetched type version name_opt =
     (case fetched of
        Inl e \<Rightarrow> Inl e
      | Inr instance \<Rightarrow>
          (case find_rule_sets type version name_opt (managed_rule_sets instance) of
             Inl e \<Rightarrow> Inl e
           | Inr (rule_sets, None) \<Rightarrow> Inr (instance\<lparr>managed_rule_sets := rule_sets\<rparr>)
           | Inr (rule_sets, Some delete_rule_set) \<Rightarrow>
               Inr (instance\<lparr>managed_rule_sets :=
                      filter (\<lambda>rule_set. rule_set \<noteq> delete_rule_set) rule_sets\<rparr>)))"

subsection \<open>The bandwidth of an ExpressRoute circuit\<close>

text \<open>
  Python's floating-point numbers are a parameter of the model: a type \<open>'f\<close> with
  \<^verbatim>\<open>float(s)\<close> (\<open>None\<close> when it raises ValueError), the truth value of a float (it is
  not zero), \<^verbatim>\<open>x * 1000\<close> and \<^verbatim>\<open>x / 1000\<close>.
\<close>

record 'f py_float =
  float_of :: "string \<Rightarrow> 'f option"
  float_bool :: "'f \<Rightarrow> bool"
  times_1000 :: "'f \<Rightarrow> 'f"
  divided_by_1000 :: "'f \<Rightarrow> 'f"

text \<open>\<^verbatim>\<open>s.split(' ')\<close>: every single space separates, and empty pieces are kept.\<close>

fun split_space :: "string \<Rightarrow> string list" where
  "split_space [] = [[]]"
| "split_space (c # cs) =
     (if c = CHR '' '' then [] # split_space cs
      else (case split_space cs of
              [] \<Rightarrow> [[c]]
            | w # ws \<Rightarrow> (c # w) # ws))"

text \<open>
  The argument is a list of strings. One string is split at its spaces; several are the
  components as they are.
\<close>

definition bandwidth_comps :: "string list \<Rightarrow> string list" where
  "bandwidth_comps bandwidth =
     (if length bandwidth = 1 then split_space (bandwidth ! 0) else bandwidth)"

definition usage_error :: error where
  "usage_error = InvalidArgumentValueError ''--bandwidth INT {Mbps,Gbps}''"

definition validate_bandwidth ::
  "'f py_float \<Rightarrow> string list option \<Rightarrow> bool \<Rightarrow> error + 'f option" where
  "validate_bandwidth fl bandwidth mbps =
     (let unit = (if mbps then ''mbps'' else ''gbps'')
      in case bandwidth of
           None \<Rightarrow> Inr None
         | Some bw \<Rightarrow>
             (let comps0 = bandwidth_comps bw;
                  comps = (if length comps0 = 1 then comps0 @ [unit] else comps0)
              in if length comps > 2 then Inl usage_error
                 else
                   (case item comps 0 of
                      Inl e \<Rightarrow> Inl e
                    | Inr input_value \<Rightarrow>
                   (case item comps 1 of
                      Inl e \<Rightarrow> Inl e
                    | Inr u \<Rightarrow>
                   (let input_unit = lower u
                    in case float_of fl input_value of
                         None \<Rightarrow> Inl ValueError
                       | Some x \<Rightarrow>
                           if float_bool fl x \<and> input_unit \<in> set [''mbps'', ''gbps'']
                           then (if input_unit = unit then Inr (Some x)
                                 else if input_unit = ''gbps'' then Inr (Some (times_1000 fl x))
                                 else Inr (Some (divided_by_1000 fl x)))
                           else Inl usage_error)))))"

text \<open>
  The floats of the examples: \<^verbatim>\<open>float\<close> on a decimal integer literal, in rational
  arithmetic.
\<close>

definition digit_value :: "char \<Rightarrow> nat option" where
  "digit_value c = map_of (zip ''0123456789'' [0, 1, 2, 3, 4, 5, 6, 7, 8, 9]) c"

fun digits_value :: "string \<Rightarrow> nat \<Rightarrow> nat option" where
  "digits_value [] n = Some n"
| "digits_value (c # cs) n =
     (case digit_value c of None \<Rightarrow> None | Some d \<Rightarrow> digits_value cs (10 * n + d))"

definition decimal_float :: "rat py_float" where
  "decimal_float =
     \<lparr>float_of = (\<lambda>s. if s = [] then None else map_option of_nat (digits_value s 0)),
      float_bool = (\<lambda>x. x \<noteq> 0),
      times_1000 = (\<lambda>x. x * 1000),
      divided_by_1000 = (\<lambda>x. x / 1000)\<rparr>"

subsection \<open>Flow logs of a network watcher\<close>

text \<open>
  The models \<^verbatim>\<open>create_nw_flow_log\<close> builds, the workspace that
  \<^verbatim>\<open>get_arm_resource_by_id\<close> returns, and the request submitted to
  \<^verbatim>\<open>client.begin_create_or_update\<close>.
\<close>

record retention_policy_parameters =
  days :: int
  retention_enabled :: bool

record flow_log_format_parameters =
  format_type :: "string option"
  format_version :: "int option"

record traffic_analytics_configuration_properties =
  analytics_enabled :: "bool option"
  workspace_id :: string
  workspace_region :: string
  workspace_resource_id :: string
  traffic_analytics_interval :: int

record workspace =
  workspace_arm_id :: string
  workspace_location :: string
  workspace_properties :: "string \<Rightarrow> string option"

record flow_log =
  location :: string
  target_resource_id :: string
  storage_id :: "string option"
  enabled :: "bool option"
  tags :: "(string \<times> string) list option"
  retention_policy :: "retention_policy_parameters option"
  format :: "flow_log_format_parameters option"
  flow_analytics_configuration :: "traffic_analytics_configuration_properties option"

datatype flow_log_call = BeginCreateOrUpdate string string string flow_log

text \<open>A call to the service raises, an HttpResponseError here, or returns.\<close>

datatype 'a remote = Raised | Returned 'a

text \<open>\<^verbatim>\<open>bool(x)\<close> for an argument that is a string or \<open>None\<close>.\<close>

definition arg_bool :: "string option \<Rightarrow> bool" where
  "arg_bool x = (case x of None \<Rightarrow> False | Some s \<Rightarrow> s \<noteq> [])"

text \<open>\<^verbatim>\<open>sum(map(bool, xs))\<close>\<close>

definition sum_bool :: "string option list \<Rightarrow> nat" where
  "sum_bool xs = length (filter arg_bool xs)"

text \<open>
  \<^verbatim>\<open>FlowLog(location=location, target_resource_id=target, storage_id=storage_account,
  enabled=enabled, tags=tags)\<close>
\<close>

definition FlowLog ::
  "string \<Rightarrow> string \<Rightarrow> string option \<Rightarrow> bool option \<Rightarrow> (string \<times> string) list option \<Rightarrow> flow_log"
  where
  "FlowLog loc target storage_account enabled_arg tags_arg =
     \<lparr>location = loc, target_resource_id = target, storage_id = storage_account,
      enabled = enabled_arg, tags = tags_arg, retention_policy = None, format = None,
      flow_analytics_configuration = None\<rparr>"

text \<open>
  The \<^verbatim>\<open>if\<close> chain of \<^verbatim>\<open>create_nw_flow_log\<close> that binds \<^verbatim>\<open>flow_log\<close>. A name that
  is read before any branch has bound it raises UnboundLocalError.
\<close>

definition target_flow_log ::
  "string \<Rightarrow> string option \<Rightarrow> string option \<Rightarrow> string option \<Rightarrow> string option \<Rightarrow>
   string option \<Rightarrow> bool option \<Rightarrow> (string \<times> string) list option \<Rightarrow> error + flow_log" where
  "target_flow_log loc nsg vnet subnet nic storage_account enabled_arg tags_arg =
     (if subnet \<noteq> None
      then Inr (FlowLog loc (the subnet) storage_account enabled_arg tags_arg)
      else if vnet \<noteq> None \<and> subnet = None
      then Inr (FlowLog loc (the vnet) storage_account enabled_arg tags_arg)
      else if nic \<noteq> None
      then Inr (FlowLog loc (the nic) storage_account enabled_arg tags_arg)
      else if nsg \<noteq> None
      then Inr (FlowLog loc (the nsg) storage_account enabled_arg tags_arg)
      else Inl UnboundLocalError)"

text \<open>
  \<^verbatim>\<open>create_nw_flow_log\<close>. \<open>get_arm_resource_by_id\<close> is the lookup of the workspace: it
  raises, or returns the resource or nothing.
\<close>

definition create_nw_flow_log ::
  "(string \<Rightarrow> workspace option remote) \<Rightarrow> string \<Rightarrow> string \<Rightarrow> string \<Rightarrow> string \<Rightarrow>
   string option \<Rightarrow> string option \<Rightarrow> string option \<Rightarrow> string option \<Rightarrow>
   string option \<Rightarrow> bool option \<Rightarrow> int \<Rightarrow> string option \<Rightarrow> int option \<Rightarrow>
   string option \<Rightarrow> int \<Rightarrow> bool option \<Rightarrow> (string \<times> string) list option \<Rightarrow>
   error + flow_log_call" where
  "create_nw_flow_log get_arm_resource_by_id loc watcher_rg watcher_name flow_log_name
     nsg vnet subnet nic storage_account enabled_arg retention log_format log_version
     traffic_analytics_workspace analytics_interval traffic_analytics_enabled tags_arg =
     (if sum_bool [vnet, subnet, nic, nsg] = 0
      then Inl (RequiredArgumentMissingError ''Please enter atleast one target resource ID.'')
      else if sum_bool [vnet, nic, nsg] > 1
      then Inl (MutuallyExclusiveArgumentError ''Please enter only one target resource ID.'')
      else
        (case target_flow_log loc nsg vnet subnet nic storage_account enabled_arg tags_arg of
           Inl e \<Rightarrow> Inl e
         | Inr flow_log0 \<Rightarrow>
             (let flow_log1 =
                    (if retention > 0
                     then flow_log0\<lparr>retention_policy :=
                            Some \<lparr>days = retention, retention_enabled = (retention > 0)\<rparr>\<rparr>
                     else flow_log0);
                  flow_log2 =
                    (if log_format \<noteq> None \<or> log_version \<noteq> None
                     then flow_log1\<lparr>format :=
                            Some \<lparr>format_type = log_format, format_version = log_version\<rparr>\<rparr>
                     else flow_log1)
              in case traffic_analytics_workspace of
                   None \<Rightarrow>
                     Inr (BeginCreateOrUpdate watcher_rg watcher_name flow_log_name flow_log2)
                 | Some workspace_name \<Rightarrow>
                     (case get_arm_resource_by_id workspace_name of
                        Raised \<Rightarrow> Inl HttpResponseError
                      | Returned None \<Rightarrow> Inl (CLIError ''Name or ID of workspace is invalid'')
                      | Returned (Some ws) \<Rightarrow>
                          (case workspace_properties ws ''customerId'' of
                             None \<Rightarrow> Inl KeyError
                           | Some customer_id \<Rightarrow>
                               Inr (BeginCreateOrUpdate watcher_rg watcher_name flow_log_name
                                      (flow_log2\<lparr>flow_analytics_configuration :=
                                         Some \<lparr>analytics_enabled = traffic_analytics_enabled,
                                               workspace_id = customer_id,
                                               workspace_region = workspace_location ws,
                                               workspace_resource_id = workspace_arm_id ws,
                                               traffic_analytics_interval = analytics_interval\<rparr>\<rparr>)))))))"

text \<open>The first argument of a list that is not \<open>None\<close>.\<close>

fun first_given :: "string option list \<Rightarrow> string option" where
  "first_given [] = None"
| "first_given (None # xs) = first_given xs"
| "first_given (Some x # xs) = Some x"

subsection \<open>Application gateways and their sub-resources\<close>

text \<open>
  An authentication certificate and a backend address pool of an application gateway,
  and the gateway with these two collections. The record is extensible: the other
  properties of a gateway are its extension, so that a statement about a gateway is
  about all of them.
\<close>

record authentication_certificate =
  cert_name :: string
  cert_data :: "string option"
  cert_id :: "string option"
  cert_etag :: "string option"

record backend_address_pool =
  pool_name :: string
  backend_addresses :: "string list option"
  pool_id :: "string option"
  pool_etag :: "string option"

record application_gateway =
  gateway_id :: string
  authentication_certificates :: "authentication_certificate list"
  backend_address_pools :: "backend_address_pool list"

text \<open>
  \<^verbatim>\<open>AuthCert(data=cert_data, name=item_name)\<close> and
  \<^verbatim>\<open>ApplicationGatewayBackendAddressPool(name=item_name, backend_addresses=servers)\<close>:
  what is not given is \<open>None\<close>.
\<close>

definition AuthCert :: "string \<Rightarrow> string \<Rightarrow> authentication_certificate" where
  "AuthCert d item_name =
     \<lparr>cert_name = item_name, cert_data = Some d, cert_id = None, cert_etag = None\<rparr>"

definition ApplicationGatewayBackendAddressPool ::
  "string \<Rightarrow> string list option \<Rightarrow> backend_address_pool" where
  "ApplicationGatewayBackendAddressPool item_name servers =
     \<lparr>pool_name = item_name, backend_addresses = servers, pool_id = None, pool_etag = None\<rparr>"

text \<open>
  Modelled from the spec: \<^verbatim>\<open>upsert_to_collection\<close> of \<^verbatim>\<open>azure.cli.core.commands\<close> is
  imported by custom.py and is not among the sources. The spec has a sub-resource
  collection, ``a named list property on a parent resource'', ``manipulated via
  find-or-replace-by-name semantics'', and the bookkeeping as ``find-or-insert-by-name
  into an object's list of sub-resources''. The element of the list that is found under
  the name of the new one is taken out and the new one is put at the end of the list;
  when none is found the new one is put at the end. \<open>key\<close> reads the name of an
  element.
\<close>

definition upsert_to_collection :: "('a \<Rightarrow> string) \<Rightarrow> 'a list \<Rightarrow> 'a \<Rightarrow> 'a list" where
  "upsert_to_collection key collection obj_to_add =
     (case find (\<lambda>x. key x = key obj_to_add) collection of
        None \<Rightarrow> collection @ [obj_to_add]
      | Some match \<Rightarrow> remove1 match collection @ [obj_to_add])"

text \<open>
  The request that reaches \<^verbatim>\<open>application_gateways.begin_create_or_update\<close>: the
  resource group, the name of the gateway, the gateway that is submitted, and whether
  the client waits for the long-running operation to complete.
\<close>

record 'g gateway_request =
  request_resource_group :: string
  request_gateway_name :: string
  request_parameters :: 'g
  request_wait :: bool

definition begin_create_or_update :: "string \<Rightarrow> string \<Rightarrow> 'g \<Rightarrow> bool \<Rightarrow> 'g gateway_request" where
  "begin_create_or_update resource_group_name application_gateway_name parameters wait =
     \<lparr>request_resource_group = resource_group_name,
      request_gateway_name = application_gateway_name,
      request_parameters = parameters,
      request_wait = wait\<rparr>"

text \<open>
  Modelled from the spec: \<^verbatim>\<open>sdk_no_wait\<close> of \<^verbatim>\<open>azure.cli.core.util\<close> is imported by
  custom.py and is not among the sources. The spec has ``synchronous client calls with
  optional long-running-operation polling'' and ``a "no-wait" escape hatch that returns
  the poller/future immediately'': the operation \<open>func\<close> is called on the arguments it
  was given, and \<open>no_wait\<close> says only that the client does not wait.
\<close>

definition sdk_no_wait :: "bool \<Rightarrow> (bool \<Rightarrow> 'r) \<Rightarrow> 'r" where
  "sdk_no_wait no_wait func = func (\<not> no_wait)"

text \<open>
  The two handlers. \<open>ncf_get\<close> is \<^verbatim>\<open>application_gateways.get\<close>: it returns the gateway
  or raises.
\<close>

definition create_ag_authentication_certificate ::
  "(string \<Rightarrow> string \<Rightarrow> error + 'a application_gateway_scheme) \<Rightarrow> string \<Rightarrow> string \<Rightarrow>
   string \<Rightarrow> string \<Rightarrow> bool \<Rightarrow> error + 'a application_gateway_scheme gateway_request" where
  "create_ag_authentication_certificate ncf_get resource_group_name application_gateway_name
     item_name d no_wait =
     (case ncf_get resource_group_name application_gateway_name of
        Inl e \<Rightarrow> Inl e
      | Inr ag \<Rightarrow>
          (let new_cert = AuthCert d item_name;
               ag1 = ag\<lparr>authentication_certificates :=
                       upsert_to_collection cert_name (authentication_certificates ag) new_cert\<rparr>
           in Inr (sdk_no_wait no_wait
                     (begin_create_or_update resource_group_name application_gateway_name ag1))))"

definition create_ag_backend_address_pool ::
  "(string \<Rightarrow> string \<Rightarrow> error + 'a application_gateway_scheme) \<Rightarrow> string \<Rightarrow> string \<Rightarrow>
   string \<Rightarrow> string list option \<Rightarrow> bool \<Rightarrow>
   error + 'a application_gateway_scheme gateway_request" where
  "create_ag_backend_address_pool ncf_get resource_group_name application_gateway_name
     item_name servers no_wait =
     (case ncf_get resource_group_name application_gateway_name of
        Inl e \<Rightarrow> Inl e
      | Inr ag \<Rightarrow>
          (let new_pool = ApplicationGatewayBackendAddressPool item_name servers;
               ag1 = ag\<lparr>backend_address_pools :=
                       upsert_to_collection pool_name (backend_address_pools ag) new_pool\<rparr>
           in Inr (sdk_no_wait no_wait
                     (begin_create_or_update resource_group_name application_gateway_name ag1))))"

section \<open>Properties\<close>

subsection \<open>TXT records\<close>

lemma txt_chunks_concat:
  "concat (txt_chunks long_text record_value) = concat record_value @ long_text"
proof (induction long_text record_value rule: txt_chunks.induct)
  case (1 long_text record_value)
  show ?case
  proof (cases "length long_text > 255")
    case True
    have "concat (txt_chunks long_text record_value)
          = concat (txt_chunks (drop 255 long_text) (record_value @ [take 255 long_text]))"
      using True by (subst txt_chunks.simps) simp
    also have "\<dots> = concat (record_value @ [take 255 long_text]) @ drop 255 long_text"
      using "1.IH" [OF True] .
    finally show ?thesis by simp
  next
    case False
    then show ?thesis by (subst txt_chunks.simps) simp
  qed
qed

lemma txt_chunks_length:
  "list_all (\<lambda>chunk. length chunk \<le> 255) record_value \<Longrightarrow>
   list_all (\<lambda>chunk. length chunk \<le> 255) (txt_chunks long_text record_value)"
proof (induction long_text record_value rule: txt_chunks.induct)
  case (1 long_text record_value)
  show ?case
  proof (cases "length long_text > 255")
    case True
    have "list_all (\<lambda>chunk. length chunk \<le> 255) (record_value @ [take 255 long_text])"
      using "1.prems" by simp
    from "1.IH" [OF True this] show ?thesis
      using True by (subst txt_chunks.simps) simp
  next
    case False
    then show ?thesis using "1.prems" by (subst txt_chunks.simps) simp
  qed
qed

lemma txt_record_value_chunks:
  "\<exists>chunks. txt_record_value val = Inr chunks
      \<and> list_all (\<lambda>chunk. length chunk \<le> 255) chunks
      \<and> concat chunks = concat val"
proof -
  have c: "concat (txt_chunks (concat val) []) = concat val"
    by (simp add: txt_chunks_concat)
  have l: "list_all (\<lambda>chunk. length chunk \<le> 255) (txt_chunks (concat val) [])"
    by (rule txt_chunks_length) simp
  show ?thesis
    using c l by (simp add: txt_record_value_def Let_def)
qed

subsection \<open>Adding a DNS record\<close>

lemma attr_eq_has:
  "map_of r name \<noteq> None \<Longrightarrow> map_of record name \<noteq> None \<Longrightarrow>
   attr_eq r record name = Inr (map_of r name = map_of record name)"
  by (auto simp: attr_eq_def getattr_def split: option.splits)

lemma all_attr_eq_has:
  "has_attrs names r \<Longrightarrow> has_attrs names record \<Longrightarrow>
   all_attr_eq r record names = Inr (same_attrs names r record)"
proof (induction r "record" names rule: all_attr_eq.induct)
  case (1 r rec)
  then show ?case by (simp add: same_attrs_def)
next
  case (2 r rec name)
  then show ?case by (simp add: same_attrs_def has_attrs_def attr_eq_has)
next
  case (3 r rec name v va)
  then show ?case
    by (simp add: same_attrs_def has_attrs_def attr_eq_has py_and_def)
qed

lemma for_return_true_has:
  "list_all (has_attrs names) l \<Longrightarrow> has_attrs names record \<Longrightarrow>
   for_return_true (\<lambda>r. all_attr_eq r record names) l
     = Inr (list_ex (\<lambda>r. same_attrs names r record) l)"
  by (induction l) (simp_all add: all_attr_eq_has)

lemma for_return_true_append:
  "for_return_true cond l = Inr False \<Longrightarrow>
   for_return_true cond (l @ [x]) = (case cond x of Inl e \<Rightarrow> Inl e | Inr t \<Rightarrow> Inr t)"
  by (induction l) (auto split: sum.splits if_splits)

lemma fields_record_exist_func:
  "map_of identifying_fields record_type = Some names \<Longrightarrow>
   record_exist_func record_type
     = Inr (\<lambda>record l. for_return_true (\<lambda>r. all_attr_eq r record names) l)"
  unfolding record_exist_func_def identifying_fields_def
  by (auto split: if_splits
      simp: check_a_record_exist_def check_aaaa_record_exist_def check_caa_record_exist_def
        check_cname_record_exist_def check_mx_record_exist_def check_ns_record_exist_def
        check_ptr_record_exist_def check_srv_record_exist_def check_txt_record_exist_def fun_eq_iff)

lemma same_attrs_refl: "same_attrs names r r"
  by (simp add: same_attrs_def list_all_iff)

lemma add_record_present:
  assumes "map_of identifying_fields record_type = Some names"
    and "type_to_property_name record_type = Inr record_property"
    and "properties record_set record_property = Some (RecordList record_list)"
  shows "add_record record_set rec record_type True =
     (case for_return_true (\<lambda>r. all_attr_eq r rec names) record_list of
        Inl e \<Rightarrow> Inl e
      | Inr found \<Rightarrow>
          if found then Inr record_set
          else Inr (setattr record_set record_property (Some (RecordList (record_list @ [rec])))))"
  using assms by (simp add: add_record_def fields_record_exist_func split: sum.splits)

lemma add_record_absent:
  assumes "map_of identifying_fields record_type = Some names"
    and "type_to_property_name record_type = Inr record_property"
    and "properties record_set record_property = None"
  shows "add_record record_set rec record_type True =
     Inr (setattr record_set record_property (Some (RecordList [rec])))"
  using assms by (simp add: add_record_def fields_record_exist_func setattr_def)

lemma add_record_returns:
  assumes "add_record record_set rec record_type True = Inr record_set'"
  shows "\<exists>record_property record_exist. type_to_property_name record_type = Inr record_property
     \<and> record_exist_func record_type = Inr record_exist"
  using assms by (auto simp: add_record_def Let_def split: sum.splits)

text \<open>
  C9. A record is added to a list only when no record of the list equals it on the
  attributes its type is compared on (\<open>ipv4_address\<close> for A records; \<open>priority\<close>,
  \<open>weight\<close>, \<open>port\<close> and \<open>target\<close> for SRV records): when the list holds such a
  record, \<^verbatim>\<open>_add_record\<close> leaves the record set as it is; and adding the same record
  to the outcome of adding it changes nothing. The records are objects of their class:
  they carry the attributes that are compared.
\<close>

theorem add_record_idempotent:
  "(map_of identifying_fields record_type = Some names
      \<and> type_to_property_name record_type = Inr record_property
      \<and> properties record_set record_property = Some (RecordList record_list)
      \<and> list_all (has_attrs names) record_list \<and> has_attrs names rec
      \<and> list_ex (\<lambda>r. same_attrs names r rec) record_list
     \<longrightarrow> add_record record_set rec record_type True = Inr record_set)
   \<and> (map_of identifying_fields record_type = Some names \<and> has_attrs names rec
      \<and> add_record record_set rec record_type True = Inr record_set'
     \<longrightarrow> add_record record_set' rec record_type True = Inr record_set')"
proof (intro conjI impI)
  assume a: "map_of identifying_fields record_type = Some names
      \<and> type_to_property_name record_type = Inr record_property
      \<and> properties record_set record_property = Some (RecordList record_list)
      \<and> list_all (has_attrs names) record_list \<and> has_attrs names rec
      \<and> list_ex (\<lambda>r. same_attrs names r rec) record_list"
  then have "for_return_true (\<lambda>r. all_attr_eq r rec names) record_list = Inr True"
    by (simp add: for_return_true_has)
  with a show "add_record record_set rec record_type True = Inr record_set"
    by (simp add: add_record_present)
next
  assume a: "map_of identifying_fields record_type = Some names \<and> has_attrs names rec
      \<and> add_record record_set rec record_type True = Inr record_set'"
  then have names: "map_of identifying_fields record_type = Some names"
    and has: "has_attrs names rec"
    and first: "add_record record_set rec record_type True = Inr record_set'"
    by simp_all
  from add_record_returns [OF first] obtain record_property
    where p: "type_to_property_name record_type = Inr record_property" by blast
  have self: "all_attr_eq rec rec names = Inr True"
    using has by (simp add: all_attr_eq_has same_attrs_refl)
  show "add_record record_set' rec record_type True = Inr record_set'"
  proof (cases "properties record_set record_property")
    case None
    then have s: "record_set' = setattr record_set record_property (Some (RecordList [rec]))"
      using first add_record_absent [OF names p] by simp
    have "properties record_set' record_property = Some (RecordList [rec])"
      by (simp add: s setattr_def)
    from add_record_present [OF names p this] show ?thesis
      by (simp add: self)
  next
    case (Some v)
    show ?thesis
    proof (cases v)
      case (SingleRecord x)
      then show ?thesis
        using first Some p names
        by (simp add: add_record_def fields_record_exist_func)
    next
      case (RecordList record_list)
      then have pr: "properties record_set record_property = Some (RecordList record_list)"
        using Some by simp
      note eq = add_record_present [OF names p pr, of rec]
      show ?thesis
      proof (cases "for_return_true (\<lambda>r. all_attr_eq r rec names) record_list")
        case (Inl e)
        then show ?thesis using first eq by simp
      next
        case (Inr found)
        show ?thesis
        proof (cases found)
          case True
          then have "record_set' = record_set" using first eq Inr by simp
          then show ?thesis using first by simp
        next
          case False
          then have s: "record_set' = setattr record_set record_property
                          (Some (RecordList (record_list @ [rec])))"
            using first eq Inr by simp
          have pr': "properties record_set' record_property
                       = Some (RecordList (record_list @ [rec]))"
            by (simp add: s setattr_def)
          have "for_return_true (\<lambda>r. all_attr_eq r rec names) (record_list @ [rec]) = Inr True"
            using for_return_true_append [of "\<lambda>r. all_attr_eq r rec names" record_list rec]
              Inr False self by simp
          with add_record_present [OF names p pr', of rec] show ?thesis by simp
        qed
      qed
    qed
  qed
qed

theorem add_record_idempotent_witness:
  "map_of identifying_fields ''a'' = Some [''ipv4_address'']
   \<and> type_to_property_name ''a'' = Inr ''a_records''
   \<and> properties (setattr (RecordSet 3600) ''a_records''
         (Some (RecordList [[(''ipv4_address'', PStr ''10.0.0.1'')]]))) ''a_records''
       = Some (RecordList [[(''ipv4_address'', PStr ''10.0.0.1'')]])
   \<and> list_all (has_attrs [''ipv4_address'']) [[(''ipv4_address'', PStr ''10.0.0.1'')]]
   \<and> has_attrs [''ipv4_address''] [(''ipv4_address'', PStr ''10.0.0.1'')]
   \<and> list_ex (\<lambda>r. same_attrs [''ipv4_address''] r [(''ipv4_address'', PStr ''10.0.0.1'')])
         [[(''ipv4_address'', PStr ''10.0.0.1'')]]
   \<and> add_record
         (setattr (RecordSet 3600) ''a_records''
            (Some (RecordList [[(''ipv4_address'', PStr ''10.0.0.1'')]])))
         [(''ipv4_address'', PStr ''10.0.0.1'')] ''a'' True
       = Inr (setattr (RecordSet 3600) ''a_records''
            (Some (RecordList [[(''ipv4_address'', PStr ''10.0.0.1'')]])))
   \<and> map_of identifying_fields ''srv'' = Some [''priority'', ''weight'', ''port'', ''target'']
   \<and> has_attrs [''priority'', ''weight'', ''port'', ''target'']
         [(''priority'', PInt 1), (''weight'', PInt 5), (''port'', PInt 443),
          (''target'', PStr ''host.example.com'')]
   \<and> add_record (RecordSet 3600)
         [(''priority'', PInt 1), (''weight'', PInt 5), (''port'', PInt 443),
          (''target'', PStr ''host.example.com'')] ''srv'' True
       = Inr (setattr (RecordSet 3600) ''srv_records''
            (Some (RecordList [[(''priority'', PInt 1), (''weight'', PInt 5), (''port'', PInt 443),
               (''target'', PStr ''host.example.com'')]])))
   \<and> add_record
         (setattr (RecordSet 3600) ''srv_records''
            (Some (RecordList [[(''priority'', PInt 1), (''weight'', PInt 5), (''port'', PInt 443),
               (''target'', PStr ''host.example.com'')]])))
         [(''priority'', PInt 1), (''weight'', PInt 5), (''port'', PInt 443),
          (''target'', PStr ''host.example.com'')] ''srv'' True
       = Inr (setattr (RecordSet 3600) ''srv_records''
            (Some (RecordList [[(''priority'', PInt 1), (''weight'', PInt 5), (''port'', PInt 443),
               (''target'', PStr ''host.example.com'')]])))"
proof -
  have a: "type_to_property_name ''a'' = Inr ''a_records''"
    by (simp add: type_to_property_name_def type_dict_def lower_def lower_char_def)
  have srv: "type_to_property_name ''srv'' = Inr ''srv_records''"
    by (simp add: type_to_property_name_def type_dict_def lower_def lower_char_def)
  have first: "add_record (RecordSet 3600)
         [(''priority'', PInt 1), (''weight'', PInt 5), (''port'', PInt 443),
          (''target'', PStr ''host.example.com'')] ''srv'' True
       = Inr (setattr (RecordSet 3600) ''srv_records''
            (Some (RecordList [[(''priority'', PInt 1), (''weight'', PInt 5), (''port'', PInt 443),
               (''target'', PStr ''host.example.com'')]])))"
    by (simp add: add_record_def srv record_exist_func_def check_srv_record_exist_def
        RecordSet_def setattr_def)
  show ?thesis
    using add_record_idempotent
        [of "''a''" "[''ipv4_address'']" "''a_records''"
          "setattr (RecordSet 3600) ''a_records''
             (Some (RecordList [[(''ipv4_address'', PStr ''10.0.0.1'')]]))"
          "[[(''ipv4_address'', PStr ''10.0.0.1'')]]" "[(''ipv4_address'', PStr ''10.0.0.1'')]"]
      add_record_idempotent
        [of "''srv''" "[''priority'', ''weight'', ''port'', ''target'']" _ "RecordSet 3600" _
          "[(''priority'', PInt 1), (''weight'', PInt 5), (''port'', PInt 443),
            (''target'', PStr ''host.example.com'')]"
          "setattr (RecordSet 3600) ''srv_records''
            (Some (RecordList [[(''priority'', PInt 1), (''weight'', PInt 5), (''port'', PInt 443),
               (''target'', PStr ''host.example.com'')]]))"]
      a first
    by (simp add: identifying_fields_def has_attrs_def same_attrs_def setattr_def)
qed

subsection \<open>Adding a TXT record\<close>

lemma txt_property: "type_to_property_name ''txt'' = Inr ''txt_records''"
  by (simp add: type_to_property_name_def type_dict_def lower_def lower_char_def)

lemma txt_fields: "map_of identifying_fields ''txt'' = Some [''value'']"
  by (simp add: identifying_fields_def)

text \<open>
  C10. For every list of strings given as the value, \<^verbatim>\<open>add_dns_txt_record\<close> passes its
  assertion and goes on to \<^verbatim>\<open>_add_save_record\<close> with a TXT record whose value is a
  list of chunks, each of at most 255 characters, whose concatenation in order is the
  concatenation of the given strings. Where the record set does not exist yet, these
  chunks are the value of the one record of the record set that is submitted.
\<close>

theorem add_dns_txt_record_chunks:
  "\<exists>chunks. txt_record_value val = Inr chunks
      \<and> list_all (\<lambda>chunk. length chunk \<le> 255) chunks
      \<and> concat chunks = concat val
      \<and> add_dns_txt_record fetched resource_group_name zone_name record_set_name val
           if_none_match
         = add_save_record fetched [(''value'', PList chunks)] ''txt'' record_set_name
             resource_group_name zone_name True None if_none_match
      \<and> add_dns_txt_record (Inl HttpResponseError) resource_group_name zone_name
           record_set_name val if_none_match
         = Inr (CreateOrUpdate resource_group_name zone_name record_set_name ''txt''
             (setattr (RecordSet 3600) ''txt_records''
                (Some (RecordList [[(''value'', PList chunks)]])))
             (if if_none_match then Some ''*'' else None))"
proof -
  from txt_record_value_chunks [of val] obtain chunks
    where v: "txt_record_value val = Inr chunks"
      and l: "list_all (\<lambda>chunk. length chunk \<le> 255) chunks"
      and c: "concat chunks = concat val"
    by blast
  have h: "add_dns_txt_record f resource_group_name zone_name record_set_name val if_none_match
         = add_save_record f [(''value'', PList chunks)] ''txt'' record_set_name
             resource_group_name zone_name True None if_none_match" for f
    by (simp add: add_dns_txt_record_def v)
  have n: "properties (RecordSet 3600) ''txt_records'' = None"
    by (simp add: RecordSet_def)
  have "add_save_record (Inl HttpResponseError) [(''value'', PList chunks)] ''txt''
          record_set_name resource_group_name zone_name True None if_none_match
        = Inr (CreateOrUpdate resource_group_name zone_name record_set_name ''txt''
             (setattr (RecordSet 3600) ''txt_records''
                (Some (RecordList [[(''value'', PList chunks)]])))
             (if if_none_match then Some ''*'' else None))"
    by (simp add: add_save_record_def add_record_absent [OF txt_fields txt_property n])
  with v l c h show ?thesis by auto
qed

subsection \<open>Removing a DNS record\<close>

text \<open>
  What \<^verbatim>\<open>_remove_record\<close> does on a record set whose property holds a list: no
  record of the list matches the filter and CLIError is raised, nothing being submitted;
  or the matching records are dropped, and the record set is deleted when nothing is left
  and it is not to be kept, resubmitted otherwise.
\<close>

lemma length_filter_all: "(length (filter P xs) = length xs) = list_all P xs"
proof (induction xs)
  case Nil
  show ?case by simp
next
  case (Cons x xs)
  have "length (filter P xs) \<noteq> Suc (length xs)"
    using length_filter_le [of P xs] by linarith
  then show ?case using Cons by simp
qed

lemma remove_record_list:
  assumes "type_to_property_name record_type = Inr record_property"
    and "properties record_set record_property = Some (RecordList record_list)"
  shows "remove_record str_of (Inr record_set) rec record_type record_set_name
           resource_group_name zone_name keep_empty_record_set True =
     (if \<not> list_ex (\<lambda>r. dict_matches_filter str_of r rec) record_list
      then Inl (CLIError ''Record {} not found.'')
      else if filter (\<lambda>r. \<not> dict_matches_filter str_of r rec) record_list = []
              \<and> \<not> keep_empty_record_set
      then Inr (Delete resource_group_name zone_name record_set_name record_type)
      else Inr (CreateOrUpdate resource_group_name zone_name record_set_name record_type
             (setattr record_set record_property
                (Some (RecordList (filter (\<lambda>r. \<not> dict_matches_filter str_of r rec) record_list))))
             None))"
proof -
  have "(length (filter (\<lambda>r. \<not> dict_matches_filter str_of r rec) record_list)
               = length record_list)
             = list_all (\<lambda>r. \<not> dict_matches_filter str_of r rec) record_list"
    by (rule length_filter_all)
  also have "\<dots> = (\<not> list_ex (\<lambda>r. dict_matches_filter str_of r rec) record_list)"
    by (simp add: list_all_iff list_ex_iff)
  finally show ?thesis
    using assms unfolding remove_record_def
    by (simp add: Let_def setattr_def)
qed

text \<open>
  A record set whose list is \<open>None\<close>: \<^verbatim>\<open>_remove_record\<close> skips the search, as
  \<^verbatim>\<open>if record_list is not None\<close> says, and then takes \<^verbatim>\<open>len\<close> of the property.
  TypeError is raised where the record is not found.
\<close>

lemma remove_dns_a_record_list_none:
  "remove_dns_a_record str_of (Inr (RecordSet 3600)) resource_group_name zone_name
     record_set_name ipv4_address keep_empty_record_set = Inl TypeError"
  by (simp add: remove_dns_a_record_def remove_record_def type_to_property_name_def
      type_dict_def lower_def lower_char_def RecordSet_def)

text \<open>
  C7, at a record set that holds the one address \<open>1.0.0.10\<close>, from which \<open>10.0.0.1\<close>
  is to be removed. No record has the given address, and the claim has CLIError raised
  and nothing submitted. \<^verbatim>\<open>dict_matches_filter\<close> hands the two strings to
  \<^verbatim>\<open>lists_match\<close>, which counts their characters and finds the same counts: the record
  matches, it is removed, and the record set, empty now, is deleted. This holds whatever
  \<^verbatim>\<open>str\<close> returns.
\<close>

theorem remove_dns_a_record_other_address:
  "remove_dns_a_record str_of
     (Inr (setattr (RecordSet 3600) ''a_records''
        (Some (RecordList [[(''ipv4_address'', PStr ''1.0.0.10'')]]))))
     ''rg'' ''example.com'' ''www'' ''10.0.0.1'' False
   = Inr (Delete ''rg'' ''example.com'' ''www'' ''a'')"
  by (simp add: remove_dns_a_record_def remove_record_def type_to_property_name_def
      type_dict_def lower_def lower_char_def RecordSet_def setattr_def
      dict_matches_filter_def dict_get_def lists_match_def)

subsection \<open>Default values from a balancer\<close>

lemma rsplit1_last:
  assumes "sep \<notin> set name"
  shows "rsplit1 sep (pre @ sep # name) = [pre, name]"
proof -
  have n: "\<And>x. x \<in> set (rev name) \<Longrightarrow> x \<noteq> sep"
    using assms by auto
  have "takeWhile (\<lambda>c. c \<noteq> sep) (rev name @ sep # rev pre)
          = rev name @ takeWhile (\<lambda>c. c \<noteq> sep) (sep # rev pre)"
    using n by (rule takeWhile_append2)
  then have t: "takeWhile (\<lambda>c. c \<noteq> sep) (rev name @ sep # rev pre) = rev name"
    by simp
  have "dropWhile (\<lambda>c. c \<noteq> sep) (rev name @ sep # rev pre)
          = dropWhile (\<lambda>c. c \<noteq> sep) (sep # rev pre)"
    using n by (rule dropWhile_append2)
  then have d: "dropWhile (\<lambda>c. c \<noteq> sep) (rev name @ sep # rev pre) = sep # rev pre"
    by simp
  show ?thesis
    by (simp add: rsplit1_def t d)
qed

text \<open>
  C6. On a balancer whose named attribute holds a list of children,
  \<^verbatim>\<open>_get_default_name\<close> and \<^verbatim>\<open>_get_default_id\<close> raise CLIError when the list has more
  than one element and when it is empty; on a single child \<^verbatim>\<open>_get_default_id\<close>
  returns its id and \<^verbatim>\<open>_get_default_name\<close> returns what follows the last \<open>/\<close> of the
  id.
\<close>

theorem get_default_value_cases:
  "balancer property_name = Some (Children xs) \<longrightarrow>
     (length xs > 1 \<longrightarrow>
        (\<exists>msg. get_default_name balancer property_name option_name = Inl (CLIError msg))
        \<and> (\<exists>msg. get_default_id balancer property_name option_name = Inl (CLIError msg)))
   \<and> (xs = [] \<longrightarrow>
        (\<exists>msg. get_default_name balancer property_name option_name = Inl (CLIError msg))
        \<and> (\<exists>msg. get_default_id balancer property_name option_name = Inl (CLIError msg)))
   \<and> (\<forall>x. xs = [x] \<longrightarrow>
        get_default_id balancer property_name option_name = Inr (res_id x)
        \<and> (\<forall>pre name. res_id x = pre @ CHR ''/'' # name \<and> CHR ''/'' \<notin> set name \<longrightarrow>
              get_default_name balancer property_name option_name = Inr name))"
  by (auto simp: get_default_name_def get_default_id_def get_default_value_def item_def
      rsplit1_last Let_def)

theorem get_default_value_cases_witness:
  "(\<lambda>n. if n = ''probes''
         then Some (Children [\<lparr>res_id = ''/lb/lb1/probes/p1''\<rparr>, \<lparr>res_id = ''/lb/lb1/probes/p2''\<rparr>])
         else None) ''probes''
     = Some (Children [\<lparr>res_id = ''/lb/lb1/probes/p1''\<rparr>, \<lparr>res_id = ''/lb/lb1/probes/p2''\<rparr>])
   \<and> length [\<lparr>res_id = ''/lb/lb1/probes/p1''\<rparr>, \<lparr>res_id = ''/lb/lb1/probes/p2''\<rparr>] > 1
   \<and> (\<exists>msg. get_default_name
          (\<lambda>n. if n = ''probes''
             then Some (Children [\<lparr>res_id = ''/lb/lb1/probes/p1''\<rparr>, \<lparr>res_id = ''/lb/lb1/probes/p2''\<rparr>])
             else None) ''probes'' ''--probe-name'' = Inl (CLIError msg))
   \<and> (\<lambda>n. if n = ''probes'' then Some (Children []) else None) ''probes'' = Some (Children [])
   \<and> (\<exists>msg. get_default_id (\<lambda>n. if n = ''probes'' then Some (Children []) else None)
          ''probes'' ''--probe'' = Inl (CLIError msg))
   \<and> (\<lambda>n. if n = ''frontend_ip_configurations''
         then Some (Children [\<lparr>res_id = ''/lb/lb1/frontendIPConfigurations/fe1''\<rparr>])
         else None) ''frontend_ip_configurations''
     = Some (Children [\<lparr>res_id = ''/lb/lb1/frontendIPConfigurations/fe1''\<rparr>])
   \<and> res_id \<lparr>res_id = ''/lb/lb1/frontendIPConfigurations/fe1''\<rparr>
       = ''/lb/lb1/frontendIPConfigurations'' @ CHR ''/'' # ''fe1''
   \<and> CHR ''/'' \<notin> set ''fe1''
   \<and> get_default_id
         (\<lambda>n. if n = ''frontend_ip_configurations''
            then Some (Children [\<lparr>res_id = ''/lb/lb1/frontendIPConfigurations/fe1''\<rparr>])
            else None) ''frontend_ip_configurations'' ''--frontend-ip''
       = Inr ''/lb/lb1/frontendIPConfigurations/fe1''
   \<and> get_default_name
         (\<lambda>n. if n = ''frontend_ip_configurations''
            then Some (Children [\<lparr>res_id = ''/lb/lb1/frontendIPConfigurations/fe1''\<rparr>])
            else None) ''frontend_ip_configurations'' ''--frontend-ip-name''
       = Inr ''fe1''"
  using get_default_value_cases
      [of "\<lambda>n. if n = ''probes''
             then Some (Children [\<lparr>res_id = ''/lb/lb1/probes/p1''\<rparr>, \<lparr>res_id = ''/lb/lb1/probes/p2''\<rparr>])
             else None" "''probes''"
          "[\<lparr>res_id = ''/lb/lb1/probes/p1''\<rparr>, \<lparr>res_id = ''/lb/lb1/probes/p2''\<rparr>]" "''--probe-name''"]
    get_default_value_cases
      [of "\<lambda>n. if n = ''probes'' then Some (Children []) else None" "''probes''" "[]" "''--probe''"]
    get_default_value_cases
      [of "\<lambda>n. if n = ''frontend_ip_configurations''
            then Some (Children [\<lparr>res_id = ''/lb/lb1/frontendIPConfigurations/fe1''\<rparr>])
            else None" "''frontend_ip_configurations''"
          "[\<lparr>res_id = ''/lb/lb1/frontendIPConfigurations/fe1''\<rparr>]" "''--frontend-ip''"]
    get_default_value_cases
      [of "\<lambda>n. if n = ''frontend_ip_configurations''
            then Some (Children [\<lparr>res_id = ''/lb/lb1/frontendIPConfigurations/fe1''\<rparr>])
            else None" "''frontend_ip_configurations''"
          "[\<lparr>res_id = ''/lb/lb1/frontendIPConfigurations/fe1''\<rparr>]" "''--frontend-ip-name''"]
  by (simp add: get_default_name_def get_default_id_def get_default_value_def item_def
        rsplit1_def Let_def)

subsection \<open>Removing a managed rule set\<close>

text \<open>
  C5, at a policy with the rule sets OWASP 3.1 and OWASP 3.2, from which OWASP 3.2 is to
  be removed with no rule group named. The claim has OWASP 3.2 removed and OWASP 3.1
  kept. The test of the source is satisfied by the type alone: OWASP 3.1 comes first and
  is removed, and OWASP 3.2 stays.
\<close>

theorem remove_waf_managed_rule_set_other_version:
  "remove_waf_managed_rule_set
     (Inr \<lparr>policy_name = ''policy'',
           managed_rule_sets =
             [\<lparr>rule_set_type = ''OWASP'', rule_set_version = ''3.1'', rule_group_overrides = []\<rparr>,
              \<lparr>rule_set_type = ''OWASP'', rule_set_version = ''3.2'', rule_group_overrides = []\<rparr>]\<rparr>)
     ''OWASP'' ''3.2'' None
   = Inr \<lparr>policy_name = ''policy'',
          managed_rule_sets =
            [\<lparr>rule_set_type = ''OWASP'', rule_set_version = ''3.2'', rule_group_overrides = []\<rparr>]\<rparr>"
  by (simp add: remove_waf_managed_rule_set_def)

subsection \<open>The bandwidth of an ExpressRoute circuit\<close>

lemma lower_unit: "lower (if mbps then ''mbps'' else ''gbps'') = (if mbps then ''mbps'' else ''gbps'')"
  by (simp add: lower_def lower_char_def)

text \<open>
  C8, as amended. \<open>None\<close> is returned for \<open>None\<close>; more than two components raise
  InvalidArgumentValueError. For a number \<open>x\<close> followed by a unit, where a missing unit
  is the expected one and the unit is read without regard to case: a number that is not
  zero is returned as it is when the unit is the expected one, multiplied by 1000 when
  the unit is Gbps and Mbps is expected, divided by 1000 when the unit is Mbps and Gbps
  is expected; a unit that is neither raises InvalidArgumentValueError, and so does the
  number zero.
\<close>

theorem validate_bandwidth_cases:
  "validate_bandwidth fl None mbps = Inr None
   \<and> (length (bandwidth_comps bw) > 2 \<longrightarrow> validate_bandwidth fl (Some bw) mbps = Inl usage_error)
   \<and> ((bandwidth_comps bw = [input_value, u]
         \<or> (bandwidth_comps bw = [input_value] \<and> u = (if mbps then ''mbps'' else ''gbps'')))
        \<and> float_of fl input_value = Some x \<longrightarrow>
        (float_bool fl x \<and> lower u = (if mbps then ''mbps'' else ''gbps'') \<longrightarrow>
           validate_bandwidth fl (Some bw) mbps = Inr (Some x))
      \<and> (float_bool fl x \<and> lower u = ''gbps'' \<and> mbps \<longrightarrow>
           validate_bandwidth fl (Some bw) mbps = Inr (Some (times_1000 fl x)))
      \<and> (float_bool fl x \<and> lower u = ''mbps'' \<and> \<not> mbps \<longrightarrow>
           validate_bandwidth fl (Some bw) mbps = Inr (Some (divided_by_1000 fl x)))
      \<and> (lower u \<noteq> ''mbps'' \<and> lower u \<noteq> ''gbps'' \<longrightarrow>
           validate_bandwidth fl (Some bw) mbps = Inl usage_error)
      \<and> (\<not> float_bool fl x \<longrightarrow> validate_bandwidth fl (Some bw) mbps = Inl usage_error))"
proof (intro conjI impI)
  show "validate_bandwidth fl None mbps = Inr None"
    by (simp add: validate_bandwidth_def)
next
  assume "length (bandwidth_comps bw) > 2"
  then show "validate_bandwidth fl (Some bw) mbps = Inl usage_error"
    by (simp add: validate_bandwidth_def Let_def)
next
  assume a: "(bandwidth_comps bw = [input_value, u]
         \<or> (bandwidth_comps bw = [input_value] \<and> u = (if mbps then ''mbps'' else ''gbps'')))
        \<and> float_of fl input_value = Some x"
  have run: "validate_bandwidth fl (Some bw) mbps =
      (if float_bool fl x \<and> (lower u = ''mbps'' \<or> lower u = ''gbps'')
       then (if lower u = (if mbps then ''mbps'' else ''gbps'') then Inr (Some x)
             else if lower u = ''gbps'' then Inr (Some (times_1000 fl x))
             else Inr (Some (divided_by_1000 fl x)))
       else Inl usage_error)"
    using a by (auto simp: validate_bandwidth_def Let_def item_def)
  {
    assume "float_bool fl x \<and> lower u = (if mbps then ''mbps'' else ''gbps'')"
    then show "validate_bandwidth fl (Some bw) mbps = Inr (Some x)"
      using run by auto
  next
    assume "float_bool fl x \<and> lower u = ''gbps'' \<and> mbps"
    then show "validate_bandwidth fl (Some bw) mbps = Inr (Some (times_1000 fl x))"
      using run by auto
  next
    assume "float_bool fl x \<and> lower u = ''mbps'' \<and> \<not> mbps"
    then show "validate_bandwidth fl (Some bw) mbps = Inr (Some (divided_by_1000 fl x))"
      using run by auto
  next
    assume "lower u \<noteq> ''mbps'' \<and> lower u \<noteq> ''gbps''"
    then show "validate_bandwidth fl (Some bw) mbps = Inl usage_error"
      using run by auto
  next
    assume "\<not> float_bool fl x"
    then show "validate_bandwidth fl (Some bw) mbps = Inl usage_error"
      using run by auto
  }
qed

theorem validate_bandwidth_cases_witness:
  "length (bandwidth_comps [''5 Mbps x'']) > 2
   \<and> validate_bandwidth decimal_float (Some [''5 Mbps x'']) True = Inl usage_error
   \<and> bandwidth_comps [''50 Gbps''] = [''50'', ''Gbps'']
   \<and> float_of decimal_float ''50'' = Some 50
   \<and> float_bool decimal_float 50
   \<and> lower ''Gbps'' = ''gbps''
   \<and> validate_bandwidth decimal_float (Some [''50 Gbps'']) True = Inr (Some 50000)
   \<and> validate_bandwidth decimal_float (Some [''50 Gbps'']) False = Inr (Some 50)
   \<and> bandwidth_comps [''500'', ''MBPS''] = [''500'', ''MBPS'']
   \<and> float_of decimal_float ''500'' = Some 500
   \<and> float_bool decimal_float 500
   \<and> lower ''MBPS'' = ''mbps''
   \<and> validate_bandwidth decimal_float (Some [''500'', ''MBPS'']) False = Inr (Some (1 / 2))
   \<and> bandwidth_comps [''500''] = [''500'']
   \<and> validate_bandwidth decimal_float (Some [''500'']) True = Inr (Some 500)
   \<and> bandwidth_comps [''50 kbps''] = [''50'', ''kbps'']
   \<and> lower ''kbps'' \<noteq> ''mbps'' \<and> lower ''kbps'' \<noteq> ''gbps''
   \<and> validate_bandwidth decimal_float (Some [''50 kbps'']) True = Inl usage_error
   \<and> bandwidth_comps [''0 Gbps''] = [''0'', ''Gbps'']
   \<and> float_of decimal_float ''0'' = Some 0
   \<and> \<not> float_bool decimal_float 0
   \<and> validate_bandwidth decimal_float (Some [''0 Gbps'']) True = Inl usage_error"
proof -
  have f: "float_of decimal_float ''50'' = Some 50" "float_of decimal_float ''500'' = Some 500"
    "float_of decimal_float ''0'' = Some 0"
    by (simp_all add: decimal_float_def digit_value_def)
  have b: "float_bool decimal_float 50" "float_bool decimal_float 500"
    "\<not> float_bool decimal_float 0"
    "times_1000 decimal_float 50 = 50000" "divided_by_1000 decimal_float 500 = 1 / 2"
    by (simp_all add: decimal_float_def)
  have l: "lower ''Gbps'' = ''gbps''" "lower ''MBPS'' = ''mbps''" "lower ''kbps'' = ''kbps''"
    "lower ''mbps'' = ''mbps''"
    by (simp_all add: lower_def lower_char_def)
  have c: "bandwidth_comps [''5 Mbps x''] = [''5'', ''Mbps'', ''x'']"
    "bandwidth_comps [''50 Gbps''] = [''50'', ''Gbps'']"
    "bandwidth_comps [''500'', ''MBPS''] = [''500'', ''MBPS'']"
    "bandwidth_comps [''500''] = [''500'']"
    "bandwidth_comps [''50 kbps''] = [''50'', ''kbps'']"
    "bandwidth_comps [''0 Gbps''] = [''0'', ''Gbps'']"
    by (simp_all add: bandwidth_comps_def)
  show ?thesis
    using validate_bandwidth_cases [of decimal_float True "[''5 Mbps x'']"]
      validate_bandwidth_cases [of decimal_float True "[''50 Gbps'']" "''50''" "''Gbps''" 50]
      validate_bandwidth_cases [of decimal_float False "[''50 Gbps'']" "''50''" "''Gbps''" 50]
      validate_bandwidth_cases [of decimal_float False "[''500'', ''MBPS'']" "''500''" "''MBPS''" 500]
      validate_bandwidth_cases [of decimal_float True "[''500'']" "''500''" "''mbps''" 500]
      validate_bandwidth_cases [of decimal_float True "[''50 kbps'']" "''50''" "''kbps''" 50]
      validate_bandwidth_cases [of decimal_float True "[''0 Gbps'']" "''0''" "''Gbps''" 0]
    by (simp add: f b l c lower_unit)
qed

text \<open>
  C8 as it is stated fails at the number zero: \<^verbatim>\<open>0 Mbps\<close> with Mbps expected is a
  number followed by the expected unit, and it is refused, since \<^verbatim>\<open>float('0')\<close> is
  false in \<^verbatim>\<open>if float(input_value) and ...\<close>.
\<close>

theorem validate_bandwidth_zero_counterexample:
  "bandwidth_comps [''0 Mbps''] = [''0'', ''Mbps'']
   \<and> float_of decimal_float ''0'' = Some 0
   \<and> validate_bandwidth decimal_float (Some [''0 Mbps'']) True = Inl usage_error"
  by (simp add: validate_bandwidth_def bandwidth_comps_def item_def lower_def lower_char_def
      decimal_float_def digit_value_def)

subsection \<open>Creating a flow log\<close>

lemma sum_bool_none:
  "(sum_bool [vnet, subnet, nic, nsg] = 0)
     = (\<not> arg_bool nsg \<and> \<not> arg_bool vnet \<and> \<not> arg_bool subnet \<and> \<not> arg_bool nic)"
  by (auto simp: sum_bool_def)

lemma first_given_target:
  assumes "sum_bool [vnet, subnet, nic, nsg] \<noteq> 0"
  shows "\<exists>target. first_given [subnet, vnet, nic, nsg] = Some target
     \<and> target_flow_log loc nsg vnet subnet nic sa en tg = Inr (FlowLog loc target sa en tg)"
  using assms
  by (cases subnet; cases vnet; cases nic; cases nsg)
    (auto simp: sum_bool_def arg_bool_def target_flow_log_def)

text \<open>
  C4, as amended. An argument counts as supplied when it is a string that is not empty.
  \<^verbatim>\<open>create_nw_flow_log\<close> raises RequiredArgumentMissingError exactly when none of nsg,
  vnet, subnet, nic is supplied, and MutuallyExclusiveArgumentError exactly when one is
  and more than one of vnet, nic, nsg are. Otherwise, with no workspace named, it
  submits a flow log whose target is the first of subnet, vnet, nic, nsg that is not
  \<open>None\<close>; with a workspace named, the lookup raises, or finds nothing and CLIError is
  raised, or finds a workspace with no \<open>customerId\<close> and KeyError is raised, or the
  flow log is submitted with the same target.
\<close>

theorem create_nw_flow_log_cases:
  "((\<exists>msg. create_nw_flow_log get_arm_resource_by_id loc watcher_rg watcher_name flow_log_name
        nsg vnet subnet nic storage_account enabled_arg retention log_format log_version
        traffic_analytics_workspace analytics_interval traffic_analytics_enabled tags_arg
        = Inl (RequiredArgumentMissingError msg))
     = (\<not> arg_bool nsg \<and> \<not> arg_bool vnet \<and> \<not> arg_bool subnet \<and> \<not> arg_bool nic))
   \<and> ((\<exists>msg. create_nw_flow_log get_arm_resource_by_id loc watcher_rg watcher_name flow_log_name
        nsg vnet subnet nic storage_account enabled_arg retention log_format log_version
        traffic_analytics_workspace analytics_interval traffic_analytics_enabled tags_arg
        = Inl (MutuallyExclusiveArgumentError msg))
     = ((arg_bool nsg \<or> arg_bool vnet \<or> arg_bool subnet \<or> arg_bool nic)
        \<and> sum_bool [vnet, nic, nsg] > 1))
   \<and> ((arg_bool nsg \<or> arg_bool vnet \<or> arg_bool subnet \<or> arg_bool nic)
        \<and> sum_bool [vnet, nic, nsg] \<le> 1 \<longrightarrow>
        (case traffic_analytics_workspace of
           None \<Rightarrow>
             (\<exists>fl. create_nw_flow_log get_arm_resource_by_id loc watcher_rg watcher_name
                    flow_log_name nsg vnet subnet nic storage_account enabled_arg retention
                    log_format log_version traffic_analytics_workspace analytics_interval
                    traffic_analytics_enabled tags_arg
                  = Inr (BeginCreateOrUpdate watcher_rg watcher_name flow_log_name fl)
                \<and> Some (target_resource_id fl) = first_given [subnet, vnet, nic, nsg])
         | Some workspace_name \<Rightarrow>
             (case get_arm_resource_by_id workspace_name of
                Raised \<Rightarrow>
                  create_nw_flow_log get_arm_resource_by_id loc watcher_rg watcher_name
                    flow_log_name nsg vnet subnet nic storage_account enabled_arg retention
                    log_format log_version traffic_analytics_workspace analytics_interval
                    traffic_analytics_enabled tags_arg
                  = Inl HttpResponseError
              | Returned None \<Rightarrow>
                  create_nw_flow_log get_arm_resource_by_id loc watcher_rg watcher_name
                    flow_log_name nsg vnet subnet nic storage_account enabled_arg retention
                    log_format log_version traffic_analytics_workspace analytics_interval
                    traffic_analytics_enabled tags_arg
                  = Inl (CLIError ''Name or ID of workspace is invalid'')
              | Returned (Some ws) \<Rightarrow>
                  (case workspace_properties ws ''customerId'' of
                     None \<Rightarrow>
                       create_nw_flow_log get_arm_resource_by_id loc watcher_rg watcher_name
                         flow_log_name nsg vnet subnet nic storage_account enabled_arg retention
                         log_format log_version traffic_analytics_workspace analytics_interval
                         traffic_analytics_enabled tags_arg
                       = Inl KeyError
                   | Some customer_id \<Rightarrow>
                       (\<exists>fl. create_nw_flow_log get_arm_resource_by_id loc watcher_rg
                              watcher_name flow_log_name nsg vnet subnet nic storage_account
                              enabled_arg retention log_format log_version
                              traffic_analytics_workspace analytics_interval
                              traffic_analytics_enabled tags_arg
                            = Inr (BeginCreateOrUpdate watcher_rg watcher_name flow_log_name fl)
                          \<and> Some (target_resource_id fl)
                              = first_given [subnet, vnet, nic, nsg])))))"
proof -
  let ?r = "create_nw_flow_log get_arm_resource_by_id loc watcher_rg watcher_name flow_log_name
        nsg vnet subnet nic storage_account enabled_arg retention log_format log_version
        traffic_analytics_workspace analytics_interval traffic_analytics_enabled tags_arg"
  let ?none = "\<not> arg_bool nsg \<and> \<not> arg_bool vnet \<and> \<not> arg_bool subnet \<and> \<not> arg_bool nic"
  have none: "?none \<Longrightarrow>
      ?r = Inl (RequiredArgumentMissingError ''Please enter atleast one target resource ID.'')"
    by (simp add: create_nw_flow_log_def sum_bool_none)
  have many: "\<not> ?none \<Longrightarrow> sum_bool [vnet, nic, nsg] > 1 \<Longrightarrow>
      ?r = Inl (MutuallyExclusiveArgumentError ''Please enter only one target resource ID.'')"
    by (simp add: create_nw_flow_log_def sum_bool_none)
  have rest: "(case traffic_analytics_workspace of
           None \<Rightarrow>
             (\<exists>fl. ?r = Inr (BeginCreateOrUpdate watcher_rg watcher_name flow_log_name fl)
                \<and> Some (target_resource_id fl) = first_given [subnet, vnet, nic, nsg])
         | Some workspace_name \<Rightarrow>
             (case get_arm_resource_by_id workspace_name of
                Raised \<Rightarrow> ?r = Inl HttpResponseError
              | Returned None \<Rightarrow> ?r = Inl (CLIError ''Name or ID of workspace is invalid'')
              | Returned (Some ws) \<Rightarrow>
                  (case workspace_properties ws ''customerId'' of
                     None \<Rightarrow> ?r = Inl KeyError
                   | Some customer_id \<Rightarrow>
                       (\<exists>fl. ?r = Inr (BeginCreateOrUpdate watcher_rg watcher_name flow_log_name fl)
                          \<and> Some (target_resource_id fl)
                              = first_given [subnet, vnet, nic, nsg]))))"
    if a: "\<not> ?none" and b: "sum_bool [vnet, nic, nsg] \<le> 1"
  proof -
    have s: "sum_bool [vnet, subnet, nic, nsg] \<noteq> 0"
      using a by (simp add: sum_bool_none)
    from first_given_target [OF s, of loc storage_account enabled_arg tags_arg]
    obtain target where target: "first_given [subnet, vnet, nic, nsg] = Some target"
      and fl: "target_flow_log loc nsg vnet subnet nic storage_account enabled_arg tags_arg
                 = Inr (FlowLog loc target storage_account enabled_arg tags_arg)"
      by blast
    show ?thesis
      using s b unfolding create_nw_flow_log_def
      by (simp add: target fl FlowLog_def Let_def split: option.splits remote.splits)
  qed
  have not_req: "\<not> ?none \<Longrightarrow> \<forall>msg. ?r \<noteq> Inl (RequiredArgumentMissingError msg)"
    using many rest
    by (cases "sum_bool [vnet, nic, nsg] > 1")
      (auto split: option.splits remote.splits simp: not_less)
  have not_mut: "sum_bool [vnet, nic, nsg] \<le> 1 \<Longrightarrow>
      \<forall>msg. ?r \<noteq> Inl (MutuallyExclusiveArgumentError msg)"
    using none rest
    by (cases ?none) (auto split: option.splits remote.splits)
  show ?thesis
  proof (intro conjI impI)
    show "(\<exists>msg. ?r = Inl (RequiredArgumentMissingError msg)) = ?none"
      using none not_req by blast
  next
    show "(\<exists>msg. ?r = Inl (MutuallyExclusiveArgumentError msg))
        = ((arg_bool nsg \<or> arg_bool vnet \<or> arg_bool subnet \<or> arg_bool nic)
           \<and> sum_bool [vnet, nic, nsg] > 1)"
    proof (cases ?none)
      case True
      then show ?thesis using none by auto
    next
      case False
      then show ?thesis using many not_mut by (cases "sum_bool [vnet, nic, nsg] > 1") auto
    qed
  next
    assume "(arg_bool nsg \<or> arg_bool vnet \<or> arg_bool subnet \<or> arg_bool nic)
        \<and> sum_bool [vnet, nic, nsg] \<le> 1"
    then show "(case traffic_analytics_workspace of
           None \<Rightarrow>
             (\<exists>fl. ?r = Inr (BeginCreateOrUpdate watcher_rg watcher_name flow_log_name fl)
                \<and> Some (target_resource_id fl) = first_given [subnet, vnet, nic, nsg])
         | Some workspace_name \<Rightarrow>
             (case get_arm_resource_by_id workspace_name of
                Raised \<Rightarrow> ?r = Inl HttpResponseError
              | Returned None \<Rightarrow> ?r = Inl (CLIError ''Name or ID of workspace is invalid'')
              | Returned (Some ws) \<Rightarrow>
                  (case workspace_properties ws ''customerId'' of
                     None \<Rightarrow> ?r = Inl KeyError
                   | Some customer_id \<Rightarrow>
                       (\<exists>fl. ?r = Inr (BeginCreateOrUpdate watcher_rg watcher_name flow_log_name fl)
                          \<and> Some (target_resource_id fl)
                              = first_given [subnet, vnet, nic, nsg]))))"
      using rest by blast
  qed
qed

theorem create_nw_flow_log_cases_witness:
  "create_nw_flow_log (\<lambda>name. Returned None) ''westus'' ''rg'' ''watcher'' ''log1''
       None None None None (Some ''sa'') (Some True) 0 None None None 60 None None
     = Inl (RequiredArgumentMissingError ''Please enter atleast one target resource ID.'')
   \<and> arg_bool (Some ''nsg1'') \<and> sum_bool [Some ''vnet1'', None, Some ''nsg1''] > 1
   \<and> create_nw_flow_log (\<lambda>name. Returned None) ''westus'' ''rg'' ''watcher'' ''log1''
       (Some ''nsg1'') (Some ''vnet1'') None None (Some ''sa'') (Some True) 0 None None None 60
       None None
     = Inl (MutuallyExclusiveArgumentError ''Please enter only one target resource ID.'')
   \<and> arg_bool (Some ''subnet1'') \<and> sum_bool [Some ''vnet1'', None, None] \<le> 1
   \<and> create_nw_flow_log (\<lambda>name. Returned None) ''westus'' ''rg'' ''watcher'' ''log1''
       None (Some ''vnet1'') (Some ''subnet1'') None (Some ''sa'') (Some True) 0 None None None 60
       None None
     = Inr (BeginCreateOrUpdate ''rg'' ''watcher'' ''log1''
         (FlowLog ''westus'' ''subnet1'' (Some ''sa'') (Some True) None))
   \<and> first_given [Some ''subnet1'', Some ''vnet1'', None, None]
     = Some (target_resource_id (FlowLog ''westus'' ''subnet1'' (Some ''sa'') (Some True) None))
   \<and> sum_bool [None, None, Some ''nsg1''] \<le> 1
   \<and> create_nw_flow_log
       (\<lambda>name. Returned (Some \<lparr>workspace_arm_id = ''/workspaces/ws'',
          workspace_location = ''westus'',
          workspace_properties = (\<lambda>k. if k = ''customerId'' then Some ''c-1'' else None)\<rparr>))
       ''westus'' ''rg'' ''watcher'' ''log1''
       (Some ''nsg1'') None None None (Some ''sa'') (Some True) 7 None None (Some ''ws'') 60
       None None
     = Inr (BeginCreateOrUpdate ''rg'' ''watcher'' ''log1''
         ((FlowLog ''westus'' ''nsg1'' (Some ''sa'') (Some True) None)
            \<lparr>retention_policy := Some \<lparr>days = 7, retention_enabled = True\<rparr>,
             flow_analytics_configuration :=
               Some \<lparr>analytics_enabled = None, workspace_id = ''c-1'',
                     workspace_region = ''westus'', workspace_resource_id = ''/workspaces/ws'',
                     traffic_analytics_interval = 60\<rparr>\<rparr>))"
  using create_nw_flow_log_cases
      [of "\<lambda>name. Returned None" "''westus''" "''rg''" "''watcher''" "''log1''"
        None None None None "Some ''sa''" "Some True" 0 None None None 60 None None]
    create_nw_flow_log_cases
      [of "\<lambda>name. Returned None" "''westus''" "''rg''" "''watcher''" "''log1''"
        "Some ''nsg1''" "Some ''vnet1''" None None "Some ''sa''" "Some True" 0 None None None 60
        None None]
    create_nw_flow_log_cases
      [of "\<lambda>name. Returned None" "''westus''" "''rg''" "''watcher''" "''log1''"
        None "Some ''vnet1''" "Some ''subnet1''" None "Some ''sa''" "Some True" 0 None None None
        60 None None]
  by (simp add: create_nw_flow_log_def target_flow_log_def sum_bool_def arg_bool_def
      FlowLog_def)

text \<open>
  C4 as it is stated fails. With one target supplied and a workspace named that the
  lookup does not find, CLIError is raised and nothing is submitted. The two tests read
  the truth value of the arguments and the \<^verbatim>\<open>if\<close> chain reads whether they are
  \<open>None\<close>: an nsg that is the empty string is missing for the first test, and a subnet
  that is the empty string is the target although an nsg is supplied.
\<close>

theorem create_nw_flow_log_counterexample:
  "create_nw_flow_log (\<lambda>name. Returned None) ''westus'' ''rg'' ''watcher'' ''log1''
       (Some ''nsg1'') None None None (Some ''sa'') (Some True) 0 None None (Some ''ws'') 60
       None None
     = Inl (CLIError ''Name or ID of workspace is invalid'')
   \<and> create_nw_flow_log (\<lambda>name. Returned None) ''westus'' ''rg'' ''watcher'' ''log1''
       (Some '''') None None None (Some ''sa'') (Some True) 0 None None None 60 None None
     = Inl (RequiredArgumentMissingError ''Please enter atleast one target resource ID.'')
   \<and> create_nw_flow_log (\<lambda>name. Returned None) ''westus'' ''rg'' ''watcher'' ''log1''
       (Some ''nsg1'') None (Some '''') None (Some ''sa'') (Some True) 0 None None None 60
       None None
     = Inr (BeginCreateOrUpdate ''rg'' ''watcher'' ''log1''
         (FlowLog ''westus'' '''' (Some ''sa'') (Some True) None))"
  by (simp add: create_nw_flow_log_def target_flow_log_def sum_bool_def arg_bool_def
      FlowLog_def)

subsection \<open>Sub-resources of an application gateway\<close>

lemma upsert_other_names:
  "filter (\<lambda>x. key x \<noteq> key obj) (upsert_to_collection key collection obj)
     = filter (\<lambda>x. key x \<noteq> key obj) collection"
proof (cases "find (\<lambda>x. key x = key obj) collection")
  case None
  then show ?thesis by (simp add: upsert_to_collection_def)
next
  case (Some match)
  then have m: "key match = key obj"
    by (auto simp: find_Some_iff)
  have "filter (\<lambda>x. key x \<noteq> key obj) (remove1 match collection)
          = filter (\<lambda>x. key x \<noteq> key obj) collection"
    using m by (induction collection) auto
  then show ?thesis using Some by (simp add: upsert_to_collection_def)
qed

lemma upsert_same_name:
  assumes "length (filter (\<lambda>x. key x = key obj) collection) \<le> 1"
  shows "filter (\<lambda>x. key x = key obj) (upsert_to_collection key collection obj) = [obj]"
proof (cases "find (\<lambda>x. key x = key obj) collection")
  case None
  then have "filter (\<lambda>x. key x = key obj) collection = []"
    by (simp add: find_None_iff filter_empty_conv)
  then show ?thesis using None by (simp add: upsert_to_collection_def)
next
  case (Some match)
  have "filter (\<lambda>x. key x = key obj) (remove1 match collection) = []"
    using Some assms
  proof (induction collection)
    case Nil
    then show ?case by simp
  next
    case (Cons x xs)
    show ?case
    proof (cases "key x = key obj")
      case True
      then have "match = x" using Cons.prems by simp
      moreover have "filter (\<lambda>x. key x = key obj) xs = []"
        using Cons.prems True by simp
      ultimately show ?thesis by simp
    next
      case False
      then have "find (\<lambda>x. key x = key obj) xs = Some match"
        and "length (filter (\<lambda>x. key x = key obj) xs) \<le> 1"
        and "match \<noteq> x"
        using Cons.prems by (auto simp: find_Some_iff)
      then show ?thesis using Cons.IH False by simp
    qed
  qed
  then show ?thesis using Some by (simp add: upsert_to_collection_def)
qed

lemma distinct_at_most_one:
  "distinct (map key xs) \<Longrightarrow> length (filter (\<lambda>x. key x = k) xs) \<le> 1"
proof (induction xs)
  case Nil
  show ?case by simp
next
  case (Cons x xs)
  show ?case
  proof (cases "key x = k")
    case True
    then have "k \<notin> key ` set xs" using Cons.prems by auto
    then have "filter (\<lambda>x. key x = k) xs = []"
      by (auto simp: filter_empty_conv)
    then show ?thesis using True by simp
  next
    case False
    then show ?thesis using Cons by simp
  qed
qed

text \<open>
  C1. The names of the certificates of a gateway that the service returns are distinct.
  On such a gateway the handler submits the fetched gateway with the collection of
  authentication certificates replaced: the collection holds exactly one element named
  \<open>item_name\<close>, the new certificate with the given data; the elements with another
  name are those of the fetched collection, unchanged and in their order; and the names
  are distinct again.
\<close>

theorem create_ag_authentication_certificate_upsert:
  "ncf_get resource_group_name application_gateway_name = Inr ag
   \<and> distinct (map cert_name (authentication_certificates ag)) \<longrightarrow>
     (\<exists>certs. create_ag_authentication_certificate ncf_get resource_group_name
           application_gateway_name item_name d no_wait
         = Inr (begin_create_or_update resource_group_name application_gateway_name
                  (ag\<lparr>authentication_certificates := certs\<rparr>) (\<not> no_wait))
        \<and> filter (\<lambda>c. cert_name c = item_name) certs = [AuthCert d item_name]
        \<and> cert_name (AuthCert d item_name) = item_name
        \<and> cert_data (AuthCert d item_name) = Some d
        \<and> filter (\<lambda>c. cert_name c \<noteq> item_name) certs
            = filter (\<lambda>c. cert_name c \<noteq> item_name) (authentication_certificates ag)
        \<and> distinct (map cert_name certs))"
proof
  assume a: "ncf_get resource_group_name application_gateway_name = Inr ag
   \<and> distinct (map cert_name (authentication_certificates ag))"
  then have g: "ncf_get resource_group_name application_gateway_name = Inr ag"
    and dist: "distinct (map cert_name (authentication_certificates ag))"
    by simp_all
  have n: "cert_name (AuthCert d item_name) = item_name"
    and dt: "cert_data (AuthCert d item_name) = Some d"
    by (simp_all add: AuthCert_def)
  let ?certs = "upsert_to_collection cert_name (authentication_certificates ag)
                  (AuthCert d item_name)"
  have run: "create_ag_authentication_certificate ncf_get resource_group_name
           application_gateway_name item_name d no_wait
         = Inr (begin_create_or_update resource_group_name application_gateway_name
                  (ag\<lparr>authentication_certificates := ?certs\<rparr>) (\<not> no_wait))"
    using g by (simp add: create_ag_authentication_certificate_def sdk_no_wait_def Let_def)
  have other: "filter (\<lambda>c. cert_name c \<noteq> item_name) ?certs
            = filter (\<lambda>c. cert_name c \<noteq> item_name) (authentication_certificates ag)"
    using upsert_other_names [of cert_name "AuthCert d item_name" "authentication_certificates ag"]
    by (simp add: n)
  have one: "length (filter (\<lambda>c. cert_name c = item_name) (authentication_certificates ag)) \<le> 1"
    using dist by (rule distinct_at_most_one)
  have same: "filter (\<lambda>c. cert_name c = item_name) ?certs = [AuthCert d item_name]"
    using upsert_same_name [of cert_name "AuthCert d item_name" "authentication_certificates ag"]
      one by (simp add: n)
  have d': "distinct (map cert_name ?certs)"
  proof (cases "find (\<lambda>x. cert_name x = item_name) (authentication_certificates ag)")
    case None
    then have "item_name \<notin> cert_name ` set (authentication_certificates ag)"
      by (auto simp: find_None_iff)
    then show ?thesis using None dist by (simp add: upsert_to_collection_def n)
  next
    case (Some match)
    let ?xs = "authentication_certificates ag"
    have dx: "distinct ?xs" and inj: "inj_on cert_name (set ?xs)"
      using dist by (simp_all add: distinct_map)
    have m: "match \<in> set ?xs" and mn: "cert_name match = item_name"
      using Some by (auto simp: find_Some_iff)
    have rest: "set (remove1 match ?xs) = set ?xs - {match}"
      using dx by (rule set_remove1_eq)
    have "distinct (remove1 match ?xs)"
      using dx by (rule distinct_remove1)
    moreover have "inj_on cert_name (set (remove1 match ?xs))"
      using inj rest by (auto intro: inj_on_subset)
    ultimately have d1: "distinct (map cert_name (remove1 match ?xs))"
      by (simp add: distinct_map)
    have "item_name \<notin> cert_name ` set (remove1 match ?xs)"
    proof
      assume "item_name \<in> cert_name ` set (remove1 match ?xs)"
      then obtain x where x: "x \<in> set ?xs" "x \<noteq> match" "cert_name x = item_name"
        using rest by auto
      then have "x = match" using inj m mn by (auto dest: inj_onD)
      then show False using x by simp
    qed
    then show ?thesis
      using d1 Some by (simp add: upsert_to_collection_def n)
  qed
  show "\<exists>certs. create_ag_authentication_certificate ncf_get resource_group_name
           application_gateway_name item_name d no_wait
         = Inr (begin_create_or_update resource_group_name application_gateway_name
                  (ag\<lparr>authentication_certificates := certs\<rparr>) (\<not> no_wait))
        \<and> filter (\<lambda>c. cert_name c = item_name) certs = [AuthCert d item_name]
        \<and> cert_name (AuthCert d item_name) = item_name
        \<and> cert_data (AuthCert d item_name) = Some d
        \<and> filter (\<lambda>c. cert_name c \<noteq> item_name) certs
            = filter (\<lambda>c. cert_name c \<noteq> item_name) (authentication_certificates ag)
        \<and> distinct (map cert_name certs)"
    using run same n dt other d' by blast
qed

theorem create_ag_authentication_certificate_upsert_witness:
  "(\<lambda>rg n. Inr \<lparr>gateway_id = ''/gateways/gw'',
        authentication_certificates =
          [\<lparr>cert_name = ''cert1'', cert_data = Some ''old'', cert_id = Some ''/gateways/gw/c/cert1'',
            cert_etag = Some ''e1''\<rparr>,
           \<lparr>cert_name = ''cert2'', cert_data = Some ''two'', cert_id = Some ''/gateways/gw/c/cert2'',
            cert_etag = Some ''e2''\<rparr>],
        backend_address_pools = []\<rparr>) ''rg'' ''gw''
     = (Inr \<lparr>gateway_id = ''/gateways/gw'',
        authentication_certificates =
          [\<lparr>cert_name = ''cert1'', cert_data = Some ''old'', cert_id = Some ''/gateways/gw/c/cert1'',
            cert_etag = Some ''e1''\<rparr>,
           \<lparr>cert_name = ''cert2'', cert_data = Some ''two'', cert_id = Some ''/gateways/gw/c/cert2'',
            cert_etag = Some ''e2''\<rparr>],
        backend_address_pools = []\<rparr> :: error + application_gateway)
   \<and> distinct (map cert_name
          [\<lparr>cert_name = ''cert1'', cert_data = Some ''old'', cert_id = Some ''/gateways/gw/c/cert1'',
            cert_etag = Some ''e1''\<rparr>,
           \<lparr>cert_name = ''cert2'', cert_data = Some ''two'', cert_id = Some ''/gateways/gw/c/cert2'',
            cert_etag = Some ''e2''\<rparr>])
   \<and> create_ag_authentication_certificate
        (\<lambda>rg n. Inr \<lparr>gateway_id = ''/gateways/gw'',
           authentication_certificates =
             [\<lparr>cert_name = ''cert1'', cert_data = Some ''old'',
               cert_id = Some ''/gateways/gw/c/cert1'', cert_etag = Some ''e1''\<rparr>,
              \<lparr>cert_name = ''cert2'', cert_data = Some ''two'',
               cert_id = Some ''/gateways/gw/c/cert2'', cert_etag = Some ''e2''\<rparr>],
           backend_address_pools = []\<rparr>)
        ''rg'' ''gw'' ''cert1'' ''new'' False
     = Inr (begin_create_or_update ''rg'' ''gw''
         \<lparr>gateway_id = ''/gateways/gw'',
          authentication_certificates =
            [\<lparr>cert_name = ''cert2'', cert_data = Some ''two'',
              cert_id = Some ''/gateways/gw/c/cert2'', cert_etag = Some ''e2''\<rparr>,
             \<lparr>cert_name = ''cert1'', cert_data = Some ''new'', cert_id = None, cert_etag = None\<rparr>],
          backend_address_pools = []\<rparr> True)
   \<and> create_ag_authentication_certificate
        (\<lambda>rg n. Inr \<lparr>gateway_id = ''/gateways/gw'',
           authentication_certificates =
             [\<lparr>cert_name = ''cert1'', cert_data = Some ''old'',
               cert_id = Some ''/gateways/gw/c/cert1'', cert_etag = Some ''e1''\<rparr>,
              \<lparr>cert_name = ''cert2'', cert_data = Some ''two'',
               cert_id = Some ''/gateways/gw/c/cert2'', cert_etag = Some ''e2''\<rparr>],
           backend_address_pools = []\<rparr>)
        ''rg'' ''gw'' ''cert3'' ''three'' True
     = Inr (begin_create_or_update ''rg'' ''gw''
         \<lparr>gateway_id = ''/gateways/gw'',
          authentication_certificates =
            [\<lparr>cert_name = ''cert1'', cert_data = Some ''old'',
              cert_id = Some ''/gateways/gw/c/cert1'', cert_etag = Some ''e1''\<rparr>,
             \<lparr>cert_name = ''cert2'', cert_data = Some ''two'',
              cert_id = Some ''/gateways/gw/c/cert2'', cert_etag = Some ''e2''\<rparr>,
             \<lparr>cert_name = ''cert3'', cert_data = Some ''three'', cert_id = None,
              cert_etag = None\<rparr>],
          backend_address_pools = []\<rparr> False)"
  using create_ag_authentication_certificate_upsert
      [of "\<lambda>rg n. Inr \<lparr>gateway_id = ''/gateways/gw'',
           authentication_certificates =
             [\<lparr>cert_name = ''cert1'', cert_data = Some ''old'',
               cert_id = Some ''/gateways/gw/c/cert1'', cert_etag = Some ''e1''\<rparr>,
              \<lparr>cert_name = ''cert2'', cert_data = Some ''two'',
               cert_id = Some ''/gateways/gw/c/cert2'', cert_etag = Some ''e2''\<rparr>],
           backend_address_pools = []\<rparr>" "''rg''" "''gw''" _ "''cert1''" "''new''" False]
  by (simp add: create_ag_authentication_certificate_def upsert_to_collection_def
      sdk_no_wait_def AuthCert_def)

text \<open>
  C2. \<^verbatim>\<open>create_ag_backend_address_pool\<close> lets through what the initial get raises;
  otherwise the gateway it submits is the fetched one but for its collection of backend
  address pools: every other field, those of the extension included, is the field of
  the fetched gateway.
\<close>

theorem create_ag_backend_address_pool_frame:
  "(case ncf_get resource_group_name application_gateway_name of
      Inl e \<Rightarrow>
        create_ag_backend_address_pool ncf_get resource_group_name application_gateway_name
          item_name servers no_wait = Inl e
    | Inr ag \<Rightarrow>
        (\<exists>req. create_ag_backend_address_pool ncf_get resource_group_name
               application_gateway_name item_name servers no_wait = Inr req
           \<and> request_parameters req
               = ag\<lparr>backend_address_pools := backend_address_pools (request_parameters req)\<rparr>
           \<and> gateway_id (request_parameters req) = gateway_id ag
           \<and> authentication_certificates (request_parameters req)
               = authentication_certificates ag
           \<and> application_gateway.more (request_parameters req) = application_gateway.more ag))"
  by (simp add: create_ag_backend_address_pool_def sdk_no_wait_def begin_create_or_update_def
      Let_def split: sum.splits)

text \<open>
  C3. For both handlers the call with \<open>no_wait\<close> set and the call with it unset raise
  the same, or submit the same gateway to the same resource group and name: they differ
  in whether the client waits for the operation.
\<close>

theorem no_wait_same_payload:
  "(case (create_ag_authentication_certificate ncf_get resource_group_name
            application_gateway_name item_name d True,
          create_ag_authentication_certificate ncf_get resource_group_name
            application_gateway_name item_name d False) of
      (Inl e, Inl e') \<Rightarrow> e = e'
    | (Inr r, Inr r') \<Rightarrow>
        request_parameters r = request_parameters r'
        \<and> request_resource_group r = request_resource_group r'
        \<and> request_gateway_name r = request_gateway_name r'
        \<and> \<not> request_wait r \<and> request_wait r'
    | _ \<Rightarrow> False)
   \<and> (case (create_ag_backend_address_pool ncf_get resource_group_name
            application_gateway_name item_name servers True,
          create_ag_backend_address_pool ncf_get resource_group_name
            application_gateway_name item_name servers False) of
      (Inl e, Inl e') \<Rightarrow> e = e'
    | (Inr r, Inr r') \<Rightarrow>
        request_parameters r = request_parameters r'
        \<and> request_resource_group r = request_resource_group r'
        \<and> request_gateway_name r = request_gateway_name r'
        \<and> \<not> request_wait r \<and> request_wait r'
    | _ \<Rightarrow> False)"
  by (simp add: create_ag_authentication_certificate_def create_ag_backend_address_pool_def
      sdk_no_wait_def begin_create_or_update_def Let_def split: sum.splits)

end
